theory Spec2Isabelle
  imports Main "HOL-Library.AList"
begin

section \<open>Strings\<close>

text \<open>
  JavaScript strings are modelled as \<^typ>\<open>string\<close>, a character being one byte, read as
  Latin-1. \<open>toLowerCase\<close> maps the capital letters \<open>A\<close> to \<open>Z\<close>, \<open>U+00C0\<close> to
  \<open>U+00D6\<close> and \<open>U+00D8\<close> to \<open>U+00DE\<close> to their small forms and leaves every other
  character as it is.
\<close>

definition asciiUpper :: string where
  "asciiUpper = ''ABCDEFGHIJKLMNOPQRSTUVWXYZ''"

definition asciiLower :: string where
  "asciiLower = ''abcdefghijklmnopqrstuvwxyz''"

definition latinUpper :: string where
  "latinUpper =
     [CHR 0xC0, CHR 0xC1, CHR 0xC2, CHR 0xC3, CHR 0xC4, CHR 0xC5, CHR 0xC6, CHR 0xC7,
      CHR 0xC8, CHR 0xC9, CHR 0xCA, CHR 0xCB, CHR 0xCC, CHR 0xCD, CHR 0xCE, CHR 0xCF,
      CHR 0xD0, CHR 0xD1, CHR 0xD2, CHR 0xD3, CHR 0xD4, CHR 0xD5, CHR 0xD6,
      CHR 0xD8, CHR 0xD9, CHR 0xDA, CHR 0xDB, CHR 0xDC, CHR 0xDD, CHR 0xDE]"

definition latinLower :: string where
  "latinLower =
     [CHR 0xE0, CHR 0xE1, CHR 0xE2, CHR 0xE3, CHR 0xE4, CHR 0xE5, CHR 0xE6, CHR 0xE7,
      CHR 0xE8, CHR 0xE9, CHR 0xEA, CHR 0xEB, CHR 0xEC, CHR 0xED, CHR 0xEE, CHR 0xEF,
      CHR 0xF0, CHR 0xF1, CHR 0xF2, CHR 0xF3, CHR 0xF4, CHR 0xF5, CHR 0xF6,
      CHR 0xF8, CHR 0xF9, CHR 0xFA, CHR 0xFB, CHR 0xFC, CHR 0xFD, CHR 0xFE]"

definition upperLetters :: string where
  "upperLetters = asciiUpper @ latinUpper"

definition lowerLetters :: string where
  "lowerLetters = asciiLower @ latinLower"

definition toLowerChar :: "char \<Rightarrow> char" where
  "toLowerChar c = (case map_of (zip upperLetters lowerLetters) c of Some l \<Rightarrow> l | None \<Rightarrow> c)"

definition toLowerCase :: "string \<Rightarrow> string" where
  "toLowerCase s = map toLowerChar s"

text \<open>\<open>s.lastIndexOf(c)\<close>: the index of the last occurrence, or \<open>-1\<close>.\<close>

fun lastIndexFrom :: "char \<Rightarrow> string \<Rightarrow> int \<Rightarrow> int \<Rightarrow> int" where
  "lastIndexFrom c [] i found = found"
| "lastIndexFrom c (x # xs) i found = lastIndexFrom c xs (i + 1) (if x = c then i else found)"

definition lastIndexOf :: "string \<Rightarrow> char \<Rightarrow> int" where
  "lastIndexOf s c = lastIndexFrom c s 0 (- 1)"

text \<open>\<open>s.substring(i)\<close>: a negative start is taken as \<open>0\<close>.\<close>

definition substring :: "string \<Rightarrow> int \<Rightarrow> string" where
  "substring s i = drop (nat (max 0 i)) s"

text \<open>
  Two characters are the same letter up to case when they are equal or one is the upper
  case form of the other; two strings are equal up to case when they agree so position by
  position.
\<close>

definition sameLetter :: "char \<Rightarrow> char \<Rightarrow> bool" where
  "sameLetter a b \<longleftrightarrow>
     a = b \<or> (a, b) \<in> set (zip upperLetters lowerLetters)
           \<or> (b, a) \<in> set (zip upperLetters lowerLetters)"

definition equalIgnoringCase :: "string \<Rightarrow> string \<Rightarrow> bool" where
  "equalIgnoringCase s t \<longleftrightarrow> list_all2 sameLetter s t"

section \<open>The processor registry (backend/processors/index.js)\<close>

datatype processor = csvProcessor | excelProcessor | xmlProcessor | pdfProcessor | imageProcessor

text \<open>The canonical label of each processor, as the \<open>switch\<close> of \<open>getProcessor\<close> spells it.\<close>

fun canonicalLabel :: "processor \<Rightarrow> string" where
  "canonicalLabel csvProcessor = ''csv''"
| "canonicalLabel excelProcessor = ''excel''"
| "canonicalLabel xmlProcessor = ''xml''"
| "canonicalLabel pdfProcessor = ''pdf''"
| "canonicalLabel imageProcessor = ''image''"

definition SUPPORTED_FORMATS :: "(string \<times> processor) list" where
  "SUPPORTED_FORMATS =
    [(''text/csv'', csvProcessor),
     (''application/csv'', csvProcessor),
     (''application/vnd.openxmlformats-officedocument.spreadsheetml.sheet'', excelProcessor),
     (''application/vnd.ms-excel'', excelProcessor),
     (''application/xml'', xmlProcessor),
     (''text/xml'', xmlProcessor),
     (''application/pdf'', pdfProcessor),
     (''image/jpeg'', imageProcessor),
     (''image/jpg'', imageProcessor),
     (''image/png'', imageProcessor),
     (''image/gif'', imageProcessor),
     (''image/webp'', imageProcessor),
     (''image/tiff'', imageProcessor),
     (''image/bmp'', imageProcessor)]"

definition EXTENSION_MAP :: "(string \<times> string) list" where
  "EXTENSION_MAP =
    [(''.csv'', ''text/csv''),
     (''.xlsx'', ''application/vnd.openxmlformats-officedocument.spreadsheetml.sheet''),
     (''.xls'', ''application/vnd.ms-excel''),
     (''.xml'', ''application/xml''),
     (''.pdf'', ''application/pdf''),
     (''.jpg'', ''image/jpeg''),
     (''.jpeg'', ''image/jpeg''),
     (''.png'', ''image/png''),
     (''.gif'', ''image/gif''),
     (''.webp'', ''image/webp''),
     (''.tiff'', ''image/tiff''),
     (''.bmp'', ''image/bmp'')]"

text \<open>
  The two tables are object literals, so that a lookup \<open>table[key]\<close> finds the own keys
  of the table and, for a key that is none of them, the members every object inherits
  from \<open>Object.prototype\<close>. All of these are truthy: functions, and \<open>Object.prototype\<close>
  itself under \<open>__proto__\<close>.
\<close>

definition objectPrototypeNames :: "string list" where
  "objectPrototypeNames =
     [''constructor'', ''__defineGetter__'', ''__defineSetter__'', ''hasOwnProperty'',
      ''__lookupGetter__'', ''__lookupSetter__'', ''isPrototypeOf'', ''propertyIsEnumerable'',
      ''toString'', ''valueOf'', ''__proto__'', ''toLocaleString'']"

text \<open>
  What \<open>getProcessor\<close> returns when it returns something: one of the five processors,
  or an inherited member of the table, named by its key.
\<close>

datatype resolved = Processor processor | InheritedMember string

text \<open>
  \<open>SUPPORTED_FORMATS[mimeType]\<close>. An absent \<open>mimeType\<close> (\<open>null\<close> or \<open>undefined\<close>, here
  \<open>None\<close>) is no key of the table and no inherited name.
\<close>

definition supportedFormat :: "string option \<Rightarrow> resolved option" where
  "supportedFormat mimeType =
     (case mimeType of
        None \<Rightarrow> None
      | Some m \<Rightarrow>
          (case map_of SUPPORTED_FORMATS m of
             Some p \<Rightarrow> Some (Processor p)
           | None \<Rightarrow> if m \<in> set objectPrototypeNames then Some (InheritedMember m) else None))"

text \<open>The \<open>switch\<close> on \<open>specifiedType.toLowerCase()\<close>; \<open>None\<close> is its \<open>default\<close> branch.\<close>

definition specifiedSwitch :: "string \<Rightarrow> processor option" where
  "specifiedSwitch label =
     (if label = ''csv'' then Some csvProcessor
      else if label = ''excel'' then Some excelProcessor
      else if label = ''xml'' then Some xmlProcessor
      else if label = ''pdf'' then Some pdfProcessor
      else if label = ''image'' then Some imageProcessor
      else None)"

text \<open>
  The fallback to the file extension: the last part of \<open>getProcessor\<close>. An extension
  that is an inherited name of \<open>EXTENSION_MAP\<close> gives a function or an object there, which
  as a key of \<open>SUPPORTED_FORMATS\<close> is its source text, no key of the table and no
  inherited name: the fallback finds nothing then, as for an extension that is no key.
\<close>

definition extensionOf :: "string \<Rightarrow> string" where
  "extensionOf filename = substring (toLowerCase filename) (lastIndexOf filename CHR ''.'')"

definition byExtension :: "string option \<Rightarrow> processor option" where
  "byExtension filename =
     (case filename of
        None \<Rightarrow> None
      | Some fn \<Rightarrow>
          if fn = [] then None
          else (case map_of EXTENSION_MAP (extensionOf fn) of
                  None \<Rightarrow> None
                | Some mappedMimeType \<Rightarrow> map_of SUPPORTED_FORMATS mappedMimeType))"

text \<open>
  \<open>getProcessor(mimeType, filename, specifiedType)\<close>. A string argument that is \<open>null\<close> or
  \<open>undefined\<close> is \<open>None\<close>; the empty string is falsy, as in the source. The result
  \<open>None\<close> is the source's \<open>null\<close>.
\<close>

definition byDetection :: "string option \<Rightarrow> string option \<Rightarrow> resolved option" where
  "byDetection mimeType filename =
     (case supportedFormat mimeType of
        Some r \<Rightarrow> Some r
      | None \<Rightarrow> map_option Processor (byExtension filename))"

definition getProcessor :: "string option \<Rightarrow> string option \<Rightarrow> string option \<Rightarrow> resolved option" where
  "getProcessor mimeType filename specifiedType =
     (case specifiedType of
        None \<Rightarrow> byDetection mimeType filename
      | Some st \<Rightarrow>
          if st = [] then byDetection mimeType filename
          else (case specifiedSwitch (toLowerCase st) of
                  Some p \<Rightarrow> Some (Processor p)
                | None \<Rightarrow> byDetection mimeType filename))"

definition isSupported :: "string option \<Rightarrow> string option \<Rightarrow> string option \<Rightarrow> bool" where
  "isSupported mimeType filename specifiedType \<longleftrightarrow>
     getProcessor mimeType filename specifiedType \<noteq> None"

section \<open>JavaScript values\<close>

text \<open>
  The values that records, cells and options carry. \<open>JNum n\<close> is the integer \<open>n\<close>;
  every other number (a fraction, \<open>NaN\<close>, an infinity) is \<open>JOtherNumber\<close> with the text
  that \<open>String\<close> prints for it. A \<open>Date\<close> is a valid one, given by its time value in
  milliseconds. \<open>JObj\<close> is an ordinary object of data, one whose prototype is
  \<open>Object.prototype\<close> and whose properties are values: the list of its own enumerable
  properties, each key once, in the order in which the runtime keeps them.
\<close>

datatype jv =
    JUndefined
  | JNull
  | JBool bool
  | JNum int
  | JOtherNumber string
  | JStr string
  | JDate int
  | JArr "jv list"
  | JObj "(string \<times> jv) list"

type_synonym obj = "(string \<times> jv) list"

text \<open>Truthiness, as \<open>if (v)\<close>, \<open>v || d\<close> and \<open>v && w\<close> test it.\<close>

fun truthy :: "jv \<Rightarrow> bool" where
  "truthy JUndefined = False"
| "truthy JNull = False"
| "truthy (JBool b) = b"
| "truthy (JNum n) = (n \<noteq> 0)"
| "truthy (JOtherNumber s) = (s \<noteq> ''NaN'')"
| "truthy (JStr s) = (s \<noteq> [])"
| "truthy (JDate t) = True"
| "truthy (JArr xs) = True"
| "truthy (JObj kvs) = True"

text \<open>\<open>a || b\<close> on values.\<close>

definition orElse :: "jv \<Rightarrow> jv \<Rightarrow> jv" where
  "orElse a b = (if truthy a then a else b)"

text \<open>\<open>typeof v === 'object'\<close> for a \<open>v\<close> that is not \<open>null\<close>.\<close>

fun isObjectValue :: "jv \<Rightarrow> bool" where
  "isObjectValue (JObj kvs) = True"
| "isObjectValue (JArr xs) = True"
| "isObjectValue (JDate t) = True"
| "isObjectValue v = False"

text \<open>Decimal notation of a number.\<close>

definition digitChar :: "nat \<Rightarrow> char" where
  "digitChar d = ''0123456789'' ! (d mod 10)"

fun showNat :: "nat \<Rightarrow> string" where
  "showNat n = (if n < 10 then [digitChar n] else showNat (n div 10) @ [digitChar (n mod 10)])"

declare showNat.simps [simp del]

definition showInt :: "int \<Rightarrow> string" where
  "showInt i = (if i < 0 then CHR ''-'' # showNat (nat (- i)) else showNat (nat i))"

definition isDigit :: "char \<Rightarrow> bool" where
  "isDigit c \<longleftrightarrow> c \<in> set ''0123456789''"

definition digitValue :: "char \<Rightarrow> int" where
  "digitValue c =
     (case map_of (zip ''0123456789'' [0, 1, 2, 3, 4, 5, 6, 7, 8, 9]) c of Some d \<Rightarrow> d | None \<Rightarrow> 0)"

definition digitsValue :: "string \<Rightarrow> int" where
  "digitsValue s = fold (\<lambda>c n. 10 * n + digitValue c) s 0"

subsection \<open>The order of the keys of an object\<close>

text \<open>
  A key is an array index when it is the decimal notation, without leading zeros, of a
  number below \<open>2\<^sup>3\<^sup>2 - 1\<close>. The runtime keeps the own keys of an object in this order:
  first the array indexes, ascending, then the other keys in the order of their creation.
\<close>

definition isArrayIndex :: "string \<Rightarrow> bool" where
  "isArrayIndex s \<longleftrightarrow>
     (if s \<noteq> [] \<and> list_all isDigit s \<and> (s = ''0'' \<or> take 1 s \<noteq> ''0'')
      then digitsValue s < 4294967295 else False)"

text \<open>A new array index goes in front of the first key that is no array index or a
  greater one.\<close>

fun insertIndex :: "string \<Rightarrow> jv \<Rightarrow> obj \<Rightarrow> obj" where
  "insertIndex k v [] = [(k, v)]"
| "insertIndex k v (p # rest) =
     (if isArrayIndex (fst p) \<and> digitsValue (fst p) < digitsValue k
      then p # insertIndex k v rest
      else (k, v) # p # rest)"

text \<open>
  Defining the own property \<open>key\<close> with the value \<open>v\<close>: an existing key keeps its
  place and takes the value, a new key goes to its place in the order of the keys.
\<close>

definition putProp :: "string \<Rightarrow> jv \<Rightarrow> obj \<Rightarrow> obj" where
  "putProp key v ob =
     (if map_of ob key \<noteq> None then AList.update key v ob
      else if isArrayIndex key then insertIndex key v ob
      else ob @ [(key, v)])"

text \<open>
  The spread \<open>{...source}\<close> into an object literal defines the own properties of the
  source, in their order, on the object under construction; the named properties of the
  literal are defined in the same way.
\<close>

definition spreadProps :: "obj \<Rightarrow> obj \<Rightarrow> obj" where
  "spreadProps target source = fold (\<lambda>(k, v) acc. putProp k v acc) source target"

text \<open>\<open>o[key]\<close> for a key that is no member of \<open>Object.prototype\<close>: \<open>undefined\<close> when
  the object has no such own property.\<close>

definition getProp :: "obj \<Rightarrow> string \<Rightarrow> jv" where
  "getProp ob key = (case map_of ob key of None \<Rightarrow> JUndefined | Some v \<Rightarrow> v)"

subsection \<open>Printing\<close>

text \<open>
  How a \<open>Date\<close> prints is left to the runtime: \<open>toISOString\<close> gives the fixed ISO-8601
  form, \<open>dateToString\<close> the form of \<open>String(date)\<close>. An integer up to
  \<open>Number.MAX_SAFE_INTEGER\<close> in size prints in decimal notation; how a larger one
  prints (rounded, or with an exponent) is left to the runtime as well.
\<close>

record printer =
  toISOString :: "int \<Rightarrow> string"
  dateToString :: "int \<Rightarrow> string"
  largeNumberToString :: "int \<Rightarrow> string"

definition maxSafeInteger :: int where
  "maxSafeInteger = 9007199254740991"

definition numberToString :: "printer \<Rightarrow> int \<Rightarrow> string" where
  "numberToString pr n = (if \<bar>n\<bar> \<le> maxSafeInteger then showInt n else largeNumberToString pr n)"

definition intercalate :: "string \<Rightarrow> string list \<Rightarrow> string" where
  "intercalate sep parts = (case parts of [] \<Rightarrow> [] | p # ps \<Rightarrow> p @ concat (map (\<lambda>q. sep @ q) ps))"

text \<open>
  The string that \<open>String(v)\<close> gives when it gives one, and likewise \<open>xs.join(sep)\<close>,
  which prints \<open>null\<close> and \<open>undefined\<close> elements as the empty string and every other
  element by \<open>String\<close>.
\<close>

fun jsString :: "printer \<Rightarrow> jv \<Rightarrow> string" where
  "jsString pr JUndefined = ''undefined''"
| "jsString pr JNull = ''null''"
| "jsString pr (JBool b) = (if b then ''true'' else ''false'')"
| "jsString pr (JNum n) = numberToString pr n"
| "jsString pr (JOtherNumber s) = s"
| "jsString pr (JStr s) = s"
| "jsString pr (JDate t) = dateToString pr t"
| "jsString pr (JArr xs) =
     intercalate '','' (map (\<lambda>x. if x = JUndefined \<or> x = JNull then [] else jsString pr x) xs)"
| "jsString pr (JObj kvs) = ''[object Object]''"

definition joinJS :: "printer \<Rightarrow> string \<Rightarrow> jv list \<Rightarrow> string" where
  "joinJS pr sep xs =
     intercalate sep (map (\<lambda>x. if x = JUndefined \<or> x = JNull then [] else jsString pr x) xs)"

text \<open>
  \<open>String(v)\<close> on an object calls its \<open>toString\<close>, so that it throws a \<open>TypeError\<close>
  for an ordinary object with an own property \<open>toString\<close>: no value here can be
  called, and \<open>valueOf\<close>, the next to be tried, gives no primitive value. An array
  is printed by joining its elements, each printed by \<open>String\<close> unless it is \<open>null\<close>
  or \<open>undefined\<close>, so that it throws when one of them does.
\<close>

fun unprintable :: "jv \<Rightarrow> bool" where
  "unprintable (JObj kvs) = (map_of kvs ''toString'' \<noteq> None)"
| "unprintable (JArr xs) = list_ex unprintable xs"
| "unprintable v = False"

definition cannotConvert :: string where
  "cannotConvert = ''Cannot convert object to primitive value''"

text \<open>\<open>String(v)\<close> and \<open>xs.join(sep)\<close> with their errors; \<open>Inl message\<close> is the error
  thrown.\<close>

definition stringOf :: "printer \<Rightarrow> jv \<Rightarrow> string + string" where
  "stringOf pr v = (if unprintable v then Inl cannotConvert else Inr (jsString pr v))"

definition joinThrowing :: "printer \<Rightarrow> string \<Rightarrow> jv list \<Rightarrow> string + string" where
  "joinThrowing pr sep xs =
     (if list_ex unprintable xs then Inl cannotConvert else Inr (joinJS pr sep xs))"

text \<open>
  The own enumerable properties a \<open>for (key in v)\<close> loop or a spread \<open>{...v}\<close> visits: the
  properties of an object, the indices of an array or of a string, nothing for any other
  value.
\<close>

definition ownEntries :: "jv \<Rightarrow> obj" where
  "ownEntries v =
     (case v of
        JObj kvs \<Rightarrow> kvs
      | JArr xs \<Rightarrow> zip (map showNat [0..<length xs]) xs
      | JStr s \<Rightarrow> zip (map showNat [0..<length s]) (map (\<lambda>c. JStr [c]) s)
      | _ \<Rightarrow> [])"

subsection \<open>Objects built by assignment\<close>

text \<open>
  An object that starts as \<open>{}\<close> and is filled by assignments \<open>o[key] = v\<close> can lose its
  prototype: \<open>Object.prototype\<close> has the accessor \<open>__proto__\<close>, so that the assignment
  \<open>o['__proto__'] = v\<close> makes no property but calls the setter, which replaces the
  prototype of \<open>o\<close> by \<open>v\<close> when \<open>v\<close> is \<open>null\<close> or an object and does nothing for any
  other \<open>v\<close>. Such an object is its prototype together with its own properties.
\<close>

datatype prototype = ObjectPrototype | NullPrototype | OtherPrototype jv

record jsobj =
  proto :: prototype
  own :: obj

text \<open>The object \<open>{}\<close>, and the ordinary object with the given own properties.\<close>

definition emptyObject :: jsobj where
  "emptyObject = \<lparr>proto = ObjectPrototype, own = []\<rparr>"

definition plainObject :: "obj \<Rightarrow> jsobj" where
  "plainObject kvs = \<lparr>proto = ObjectPrototype, own = kvs\<rparr>"

text \<open>
  Whether the assignment \<open>o['__proto__'] = v\<close> reaches the setter: it does unless \<open>o\<close>
  has an own property of that name, or has no prototype, or has a prototype with an own
  property of that name.
\<close>

definition setterReached :: "jsobj \<Rightarrow> bool" where
  "setterReached ob \<longleftrightarrow>
     map_of (own ob) ''__proto__'' = None
     \<and> (case proto ob of
          ObjectPrototype \<Rightarrow> True
        | NullPrototype \<Rightarrow> False
        | OtherPrototype p \<Rightarrow> map_of (ownEntries p) ''__proto__'' = None)"

text \<open>The assignment \<open>o[key] = v\<close>.\<close>

definition setProp :: "string \<Rightarrow> jv \<Rightarrow> jsobj \<Rightarrow> jsobj" where
  "setProp key v ob =
     (if key = ''__proto__'' \<and> setterReached ob
      then (if v = JNull then ob\<lparr>proto := NullPrototype\<rparr>
            else if isObjectValue v then ob\<lparr>proto := OtherPrototype v\<rparr>
            else ob)
      else ob\<lparr>own := putProp key v (own ob)\<rparr>)"

text \<open>\<open>Object.assign(target, source)\<close> assigns the own properties of the source, in
  their order.\<close>

definition objectAssign :: "jsobj \<Rightarrow> obj \<Rightarrow> jsobj" where
  "objectAssign target source = fold (\<lambda>(k, v) acc. setProp k v acc) source target"

text \<open>
  The call \<open>o.hasOwnProperty(key)\<close> throws a \<open>TypeError\<close> when what \<open>o.hasOwnProperty\<close>
  finds is no function: an own property of that name (no value here is a function),
  nothing at all in an object without prototype, or such an own property of the
  prototype.
\<close>

definition hasOwnPropertyFails :: "jsobj \<Rightarrow> bool" where
  "hasOwnPropertyFails ob \<longleftrightarrow>
     (case map_of (own ob) ''hasOwnProperty'' of
        Some v \<Rightarrow> True
      | None \<Rightarrow>
          (case proto ob of
             ObjectPrototype \<Rightarrow> False
           | NullPrototype \<Rightarrow> True
           | OtherPrototype p \<Rightarrow> map_of (ownEntries p) ''hasOwnProperty'' \<noteq> None))"

text \<open>The keys a loop \<open>for (key in o)\<close> visits: the own ones, then the enumerable ones of
  the prototype that are not among them.\<close>

definition forInKeys :: "jsobj \<Rightarrow> string list" where
  "forInKeys ob =
     map fst (own ob)
     @ (case proto ob of
          OtherPrototype p \<Rightarrow> filter (\<lambda>k. map_of (own ob) k = None) (map fst (ownEntries p))
        | _ \<Rightarrow> [])"

subsection \<open>Loops that may throw\<close>

text \<open>\<open>xs.map(f)\<close> and \<open>xs.forEach(f)\<close> with an \<open>f\<close> that may throw: the first error
  ends the loop.\<close>

fun mapThrowing :: "('a \<Rightarrow> string + 'b) \<Rightarrow> 'a list \<Rightarrow> string + 'b list" where
  "mapThrowing f [] = Inr []"
| "mapThrowing f (x # xs) =
     (case f x of
        Inl message \<Rightarrow> Inl message
      | Inr y \<Rightarrow> (case mapThrowing f xs of Inl message \<Rightarrow> Inl message | Inr ys \<Rightarrow> Inr (y # ys)))"

fun foldThrowing :: "('a \<Rightarrow> 'b \<Rightarrow> string + 'b) \<Rightarrow> 'a list \<Rightarrow> 'b \<Rightarrow> string + 'b" where
  "foldThrowing f [] acc = Inr acc"
| "foldThrowing f (x # xs) acc =
     (case f x acc of
        Inl message \<Rightarrow> Inl message
      | Inr acc' \<Rightarrow> foldThrowing f xs acc')"

section \<open>The export formatter (utils/exportData.js)\<close>

text \<open>The compound key of \<open>flattenObject\<close>: \<open>prefix ? `${prefix}${separator}${key}` : key\<close>.\<close>

definition newKey :: "string \<Rightarrow> string \<Rightarrow> string \<Rightarrow> string" where
  "newKey prefix separator key = (if prefix \<noteq> [] then prefix @ separator @ key else key)"

text \<open>
  The loop \<open>for (const key in obj) { if (obj.hasOwnProperty(key)) ... }\<close> calls
  \<open>obj.hasOwnProperty\<close> in its first round, so that \<open>flattenObject(obj)\<close> throws when
  the loop has a key to visit and the call fails. Otherwise the test holds for the own
  keys and fails for the inherited ones: the loop body runs for the own properties.
\<close>

definition notAFunction :: string where
  "notAFunction = ''obj.hasOwnProperty is not a function''"

definition loopThrows :: "jsobj \<Rightarrow> bool" where
  "loopThrows ob \<longleftrightarrow> forInKeys ob \<noteq> [] \<and> hasOwnPropertyFails ob"

text \<open>
  The loop of \<open>flattenObject\<close> over the own properties of \<open>obj\<close>, with the object
  \<open>flattened\<close> built so far. The branches are those of the source, in its order: a
  plain object (flattened by the recursive call, which may throw, and assigned to
  \<open>flattened\<close>), an array (joined, which may throw), a \<open>Date\<close>, and the last branch
  for every other value.
  \<open>Inl message\<close> is the error thrown.
\<close>

fun flattenInto :: "printer \<Rightarrow> string \<Rightarrow> obj \<Rightarrow> string \<Rightarrow> jsobj \<Rightarrow> string + jsobj" where
  "flattenInto pr separator [] prefix flattened = Inr flattened"
| "flattenInto pr separator ((key, JObj inner) # rest) prefix flattened =
     (if loopThrows (plainObject inner) then Inl notAFunction
      else case flattenInto pr separator inner (newKey prefix separator key) emptyObject of
             Inl message \<Rightarrow> Inl message
           | Inr sub \<Rightarrow> flattenInto pr separator rest prefix (objectAssign flattened (own sub)))"
| "flattenInto pr separator ((key, JArr xs) # rest) prefix flattened =
     (case joinThrowing pr '', '' xs of
        Inl message \<Rightarrow> Inl message
      | Inr joined \<Rightarrow>
          flattenInto pr separator rest prefix
            (setProp (newKey prefix separator key) (JStr joined) flattened))"
| "flattenInto pr separator ((key, JDate t) # rest) prefix flattened =
     flattenInto pr separator rest prefix
       (setProp (newKey prefix separator key) (JStr (toISOString pr t)) flattened)"
| "flattenInto pr separator ((key, JUndefined) # rest) prefix flattened =
     flattenInto pr separator rest prefix
       (setProp (newKey prefix separator key) JUndefined flattened)"
| "flattenInto pr separator ((key, JNull) # rest) prefix flattened =
     flattenInto pr separator rest prefix
       (setProp (newKey prefix separator key) JNull flattened)"
| "flattenInto pr separator ((key, JBool b) # rest) prefix flattened =
     flattenInto pr separator rest prefix
       (setProp (newKey prefix separator key) (JBool b) flattened)"
| "flattenInto pr separator ((key, JNum n) # rest) prefix flattened =
     flattenInto pr separator rest prefix
       (setProp (newKey prefix separator key) (JNum n) flattened)"
| "flattenInto pr separator ((key, JOtherNumber s) # rest) prefix flattened =
     flattenInto pr separator rest prefix
       (setProp (newKey prefix separator key) (JOtherNumber s) flattened)"
| "flattenInto pr separator ((key, JStr s) # rest) prefix flattened =
     flattenInto pr separator rest prefix
       (setProp (newKey prefix separator key) (JStr s) flattened)"

text \<open>\<open>flattenObject(obj, prefix, separator)\<close> on an object.\<close>

definition flattenObjectWith :: "printer \<Rightarrow> jsobj \<Rightarrow> string \<Rightarrow> string \<Rightarrow> string + jsobj" where
  "flattenObjectWith pr ob prefix separator =
     (if loopThrows ob then Inl notAFunction
      else flattenInto pr separator (own ob) prefix emptyObject)"

text \<open>\<open>flattenObject(obj)\<close> with the default \<open>prefix = ''\<close> and \<open>separator = '.'\<close>.\<close>

definition flattenObject :: "printer \<Rightarrow> jsobj \<Rightarrow> string + jsobj" where
  "flattenObject pr ob = flattenObjectWith pr ob [] ''.''"

text \<open>
  \<open>flattenObject(item)\<close> on any value: an ordinary object as it is, an array or a
  string as the object of its indices (neither has a \<open>hasOwnProperty\<close> of its own), any
  other value as an object without properties.
\<close>

definition flattenValue :: "printer \<Rightarrow> jv \<Rightarrow> string + jsobj" where
  "flattenValue pr item = flattenObject pr (plainObject (ownEntries item))"

text \<open>\<open>getAllFields\<close>: the keys of all records, each once, in the order first seen.\<close>

definition addField :: "string \<Rightarrow> string list \<Rightarrow> string list" where
  "addField k seen = (if k \<in> set seen then seen else seen @ [k])"

definition getAllFields :: "jsobj list \<Rightarrow> string list" where
  "getAllFields rows = fold (\<lambda>item seen. fold addField (map fst (own item)) seen) rows []"

text \<open>The result \<open>{data, filename, mimeType}\<close> of an export.\<close>

record 'd exportResult =
  exportData :: 'd
  exportFilename :: string
  exportMimeType :: string

text \<open>
  The libraries the formatter calls are parameters: the CSV writer (\<open>json2csv\<close>, from
  the field list and the rows), the workbook writer (\<open>xlsx\<close>, from the rows and the
  sheet name) and \<open>JSON.stringify\<close> (with or without indentation). A writer either
  returns its output or throws an error with a message (\<open>Inl\<close>). The column widths that
  \<open>autoSizeColumns\<close> hands to the workbook writer are computed from the rows, without
  throwing, so that they are no argument of their own here.
\<close>

record 'b exportLibs =
  csvParse :: "string list \<Rightarrow> jsobj list \<Rightarrow> string + string"
  xlsxWrite :: "jsobj list \<Rightarrow> string \<Rightarrow> string + 'b"
  jsonStringify :: "bool \<Rightarrow> jv \<Rightarrow> string"

text \<open>
  The three exports. The argument \<open>data\<close> is any value; an absent \<open>filename\<close>,
  \<open>sheetName\<close> or \<open>pretty\<close> takes its default. \<open>Inl message\<close> is the \<open>Error\<close> thrown
  by the \<open>catch\<close> block.
\<close>

definition exportToCSV ::
  "printer \<Rightarrow> 'b exportLibs \<Rightarrow> jv \<Rightarrow> string option \<Rightarrow> string + string exportResult" where
  "exportToCSV pr libs data filename =
     (case (case data of
              JArr items \<Rightarrow>
                if items = [] then Inl ''No data to export''
                else
                  (case mapThrowing (flattenValue pr) items of
                     Inl message \<Rightarrow> Inl message
                   | Inr flattenedData \<Rightarrow>
                       (case csvParse libs (getAllFields flattenedData) flattenedData of
                          Inl message \<Rightarrow> Inl message
                        | Inr csv \<Rightarrow>
                            Inr \<lparr>exportData = csv,
                                 exportFilename = (case filename of None \<Rightarrow> ''export'' | Some f \<Rightarrow> f) @ ''.csv'',
                                 exportMimeType = ''text/csv''\<rparr>))
            | _ \<Rightarrow> Inl ''No data to export'') of
        Inl message \<Rightarrow> Inl (''CSV export failed: '' @ message)
      | Inr result \<Rightarrow> Inr result)"

definition exportToExcel ::
  "printer \<Rightarrow> 'b exportLibs \<Rightarrow> jv \<Rightarrow> string option \<Rightarrow> string option \<Rightarrow> string + 'b exportResult" where
  "exportToExcel pr libs data filename sheetName =
     (case (case data of
              JArr items \<Rightarrow>
                if items = [] then Inl ''No data to export''
                else
                  (case mapThrowing (flattenValue pr) items of
                     Inl message \<Rightarrow> Inl message
                   | Inr flattenedData \<Rightarrow>
                       (case xlsxWrite libs flattenedData
                               (case sheetName of None \<Rightarrow> ''Data'' | Some n \<Rightarrow> n) of
                          Inl message \<Rightarrow> Inl message
                        | Inr buffer \<Rightarrow>
                            Inr \<lparr>exportData = buffer,
                                 exportFilename = (case filename of None \<Rightarrow> ''export'' | Some f \<Rightarrow> f) @ ''.xlsx'',
                                 exportMimeType =
                                   ''application/vnd.openxmlformats-officedocument.spreadsheetml.sheet''\<rparr>))
            | _ \<Rightarrow> Inl ''No data to export'') of
        Inl message \<Rightarrow> Inl (''Excel export failed: '' @ message)
      | Inr result \<Rightarrow> Inr result)"


section \<open>Text helpers of the extractors\<close>

text \<open>
  The character classes of the patterns: \<open>\s\<close> (white space, the no-break space
  \<open>U+00A0\<close> too), \<open>\w\<close> (the ASCII word characters) and the line terminators that
  \<open>.\<close>, \<open>^\<close> and \<open>$\<close> respect.
\<close>

definition newline :: char where
  "newline = CHR 0x0A"

definition isSpace :: "char \<Rightarrow> bool" where
  "isSpace c \<longleftrightarrow> c \<in> set [CHR '' '', CHR 0x09, CHR 0x0A, CHR 0x0B, CHR 0x0C, CHR 0x0D, CHR 0xA0]"

definition isLineTerminator :: "char \<Rightarrow> bool" where
  "isLineTerminator c \<longleftrightarrow> c = CHR 0x0A \<or> c = CHR 0x0D"

definition isWord :: "char \<Rightarrow> bool" where
  "isWord c \<longleftrightarrow> c \<in> set (asciiLower @ asciiUpper @ ''0123456789_'')"

text \<open>\<open>s.trim()\<close> strips the white space of \<open>\s\<close>.\<close>

definition trim :: "string \<Rightarrow> string" where
  "trim s = rev (dropWhile isSpace (rev (dropWhile isSpace s)))"

text \<open>\<open>s.replace(/\s+/g, '_')\<close>: every maximal run of white space becomes one underscore.\<close>

function replaceSpaceRuns :: "string \<Rightarrow> string" where
  "replaceSpaceRuns [] = []"
| "replaceSpaceRuns (c # cs) =
     (if isSpace c then CHR ''_'' # replaceSpaceRuns (dropWhile isSpace cs)
      else c # replaceSpaceRuns cs)"
  by pat_completeness auto
termination
  by (relation "measure length") (auto simp: length_dropWhile_le less_Suc_eq_le)

text \<open>\<open>s.split(c)\<close> on a one-character separator.\<close>

fun splitOn :: "char \<Rightarrow> string \<Rightarrow> string list" where
  "splitOn sep [] = [[]]"
| "splitOn sep (c # cs) =
     (if c = sep then [] # splitOn sep cs
      else (case splitOn sep cs of [] \<Rightarrow> [[c]] | piece # pieces \<Rightarrow> (c # piece) # pieces))"

text \<open>\<open>s.split(/\s{2,}/)\<close>: the pieces between the maximal runs of two or more white space
  characters; \<open>piece\<close> is the piece under construction, reversed.\<close>

function splitWide :: "string \<Rightarrow> string \<Rightarrow> string list" where
  "splitWide piece [] = [rev piece]"
| "splitWide piece [c] = [rev (c # piece)]"
| "splitWide piece (c # d # cs) =
     (if isSpace c \<and> isSpace d then rev piece # splitWide [] (dropWhile isSpace cs)
      else splitWide (c # piece) (d # cs))"
  by pat_completeness auto
termination
  by (relation "measure (\<lambda>(piece, s). length s)")
     (auto simp: less_Suc_eq_le intro!: le_SucI length_dropWhile_le)

section \<open>Regular expressions of the extractors\<close>

text \<open>
  The patterns are matched by backtracking, as the runtime does: a matcher gives the
  states reachable from a state, in the order in which backtracking tries them, and the
  first one is the match. A state is the position in the input and the captures so far.
\<close>

datatype regex =
    Chr "char \<Rightarrow> bool"
  | Seq regex regex
  | Alt regex regex
  | Star regex
  | Group nat regex
  | Empty
  | InputStart
  | LineStart
  | LineEnd

type_synonym captures = "(nat \<times> nat \<times> nat) list"
type_synonym mstate = "nat \<times> captures"

text \<open>\<open>r+\<close> and \<open>r?\<close>.\<close>

definition Plus :: "regex \<Rightarrow> regex" where
  "Plus r = Seq r (Star r)"

definition Opt :: "regex \<Rightarrow> regex" where
  "Opt r = Alt r Empty"

text \<open>A literal word and an alternation of literal words under the \<open>i\<close> flag: a
  character of the input matches a letter of the word when both are the same letter up
  to case.\<close>

fun wordCI :: "string \<Rightarrow> regex" where
  "wordCI [] = Empty"
| "wordCI [x] = Chr (\<lambda>c. toLowerChar c = toLowerChar x)"
| "wordCI (x # xs) = Seq (Chr (\<lambda>c. toLowerChar c = toLowerChar x)) (wordCI xs)"

fun anyWordCI :: "string list \<Rightarrow> regex" where
  "anyWordCI [] = Chr (\<lambda>c. False)"
| "anyWordCI [w] = wordCI w"
| "anyWordCI (w # ws) = Alt (wordCI w) (anyWordCI ws)"

text \<open>
  A greedy repetition: one more round first, then stopping here. A round that consumes
  nothing is rejected, so there are at most as many rounds as characters left.
\<close>

fun starFrom :: "(mstate \<Rightarrow> mstate list) \<Rightarrow> nat \<Rightarrow> mstate \<Rightarrow> mstate list" where
  "starFrom round 0 st = [st]"
| "starFrom round (Suc n) st =
     concat (map (\<lambda>st'. if fst st < fst st' then starFrom round n st' else []) (round st)) @ [st]"

primrec rmatch :: "regex \<Rightarrow> string \<Rightarrow> mstate \<Rightarrow> mstate list" where
  "rmatch (Chr P) s = (\<lambda>st. if fst st < length s \<and> P (s ! fst st) then [(Suc (fst st), snd st)] else [])"
| "rmatch (Seq a b) s = (\<lambda>st. concat (map (rmatch b s) (rmatch a s st)))"
| "rmatch (Alt a b) s = (\<lambda>st. rmatch a s st @ rmatch b s st)"
| "rmatch (Star a) s = (\<lambda>st. starFrom (rmatch a s) (length s - fst st) st)"
| "rmatch (Group n a) s = (\<lambda>st. map (\<lambda>st'. (fst st', (n, fst st, fst st') # snd st')) (rmatch a s st))"
| "rmatch Empty s = (\<lambda>st. [st])"
| "rmatch InputStart s = (\<lambda>st. if fst st = 0 then [st] else [])"
| "rmatch LineStart s =
     (\<lambda>st. if fst st = 0 \<or> isLineTerminator (s ! (fst st - 1)) then [st] else [])"
| "rmatch LineEnd s =
     (\<lambda>st. if fst st = length s \<or> isLineTerminator (s ! fst st) then [st] else [])"

text \<open>One match: where it starts, where it ends and what it captured.\<close>

type_synonym rxmatch = "nat \<times> nat \<times> captures"

definition matchAt :: "regex \<Rightarrow> string \<Rightarrow> nat \<Rightarrow> rxmatch option" where
  "matchAt r s i = (case rmatch r s (i, []) of [] \<Rightarrow> None | st # _ \<Rightarrow> Some (i, fst st, snd st))"

fun firstMatch :: "regex \<Rightarrow> string \<Rightarrow> nat list \<Rightarrow> rxmatch option" where
  "firstMatch r s [] = None"
| "firstMatch r s (i # rest) =
     (case matchAt r s i of Some m \<Rightarrow> Some m | None \<Rightarrow> firstMatch r s rest)"

text \<open>\<open>re.exec(s)\<close> with \<open>re.lastIndex = lastIndex\<close>: the first match that starts at
  \<open>lastIndex\<close> or later; \<open>re.test(s)\<close> of a pattern without the \<open>g\<close> flag.\<close>

definition execFrom :: "regex \<Rightarrow> string \<Rightarrow> nat \<Rightarrow> rxmatch option" where
  "execFrom r s lastIndex = firstMatch r s [lastIndex..<Suc (length s)]"

definition regexTest :: "regex \<Rightarrow> string \<Rightarrow> bool" where
  "regexTest r s \<longleftrightarrow> execFrom r s 0 \<noteq> None"

text \<open>\<open>match[0]\<close> and \<open>match[n]\<close>.\<close>

definition matched :: "string \<Rightarrow> rxmatch \<Rightarrow> string" where
  "matched s m = (case m of (i, j, caps) \<Rightarrow> take (j - i) (drop i s))"

definition capture :: "string \<Rightarrow> rxmatch \<Rightarrow> nat \<Rightarrow> string" where
  "capture s m n =
     (case m of (i, j, caps) \<Rightarrow>
        (case map_of caps n of None \<Rightarrow> [] | Some (a, b) \<Rightarrow> take (b - a) (drop a s)))"

text \<open>
  The loop \<open>while ((match = re.exec(text)) !== null) { body }\<close> of a pattern with the
  \<open>g\<close> flag: each round starts where the last match ended. The loop does not return
  (\<open>None\<close>) when it runs forever.
\<close>

partial_function (option) execLoop ::
  "(rxmatch \<Rightarrow> 'a \<Rightarrow> 'a) \<Rightarrow> regex \<Rightarrow> string \<Rightarrow> nat \<Rightarrow> 'a \<Rightarrow> 'a option" where
  "execLoop body r s lastIndex acc =
     (case execFrom r s lastIndex of
        None \<Rightarrow> Some acc
      | Some m \<Rightarrow> execLoop body r s (fst (snd m)) (body m acc))"

declare execLoop.simps [code]

section \<open>What the processors share\<close>

text \<open>The uploaded file, as the upload middleware hands it over; \<open>filesize\<close> is its
  \<open>size\<close>.\<close>

record upload =
  originalname :: string
  mimetype :: string
  filesize :: int
  path :: "string option"
  buffer :: "string option"

text \<open>\<open>if (file.path) ... else if (file.buffer) ... else throw\<close>: whether the file has data.\<close>

definition hasFileData :: "upload \<Rightarrow> bool" where
  "hasFileData file \<longleftrightarrow>
     (case path file of Some p \<Rightarrow> p \<noteq> [] | None \<Rightarrow> False) \<or> buffer file \<noteq> None"

text \<open>The \<open>ProcessingResult\<close> every processor returns.\<close>

record processingResult =
  data :: "jv list"
  errors :: "jv list"
  metadata :: obj

text \<open>
  The two effects of a processor: \<open>generateRecordId()\<close> and \<open>new Date()\<close>. \<open>genId env n\<close>
  and \<open>now env n\<close> are what the call number \<open>n\<close> (from \<open>0\<close>) returns within one run.
\<close>

record env =
  genId :: "nat \<Rightarrow> string"
  now :: "nat \<Rightarrow> int"

text \<open>The object literal \<open>{...base, k1: v1, ..., kn: vn}\<close>.\<close>

definition spreadWith :: "jv \<Rightarrow> obj \<Rightarrow> obj" where
  "spreadWith base props = spreadProps (spreadProps [] (ownEntries base)) props"

text \<open>\<open>v.key\<close> on any value that has properties, for a key that is no member of a
  prototype.\<close>

definition propOf :: "jv \<Rightarrow> string \<Rightarrow> jv" where
  "propOf v key = getProp (ownEntries v) key"

section \<open>The PDF processor (backend/processors/pdfProcessor.js)\<close>

text \<open>What \<open>pdf-parse\<close> returns; \<open>pdfText\<close> is its \<open>text\<close>.\<close>

record pdfData =
  numpages :: int
  pdfText :: string
  info :: jv

text \<open>\<open>/^[\w\s]+\s+[\w\s]+\s+[\w\s]+/\<close>\<close>

definition tablePattern :: regex where
  "tablePattern =
     Seq InputStart
    (Seq (Plus (Chr (\<lambda>c. isWord c \<or> isSpace c)))
    (Seq (Plus (Chr isSpace))
    (Seq (Plus (Chr (\<lambda>c. isWord c \<or> isSpace c)))
    (Seq (Plus (Chr isSpace))
         (Plus (Chr (\<lambda>c. isWord c \<or> isSpace c)))))))"

text \<open>\<open>/^([^:]+):\s*(.+)$/gm\<close>\<close>

definition keyValuePattern :: regex where
  "keyValuePattern =
     Seq LineStart
    (Seq (Group 1 (Plus (Chr (\<lambda>c. c \<noteq> CHR '':''))))
    (Seq (Chr (\<lambda>c. c = CHR '':''))
    (Seq (Star (Chr isSpace))
    (Seq (Group 2 (Plus (Chr (\<lambda>c. \<not> isLineTerminator c))))
         LineEnd))))"

text \<open>\<open>/(\w+):\s*([^\s]+(?:\s+[^\s:]+)*)/g\<close>\<close>

definition formPattern :: regex where
  "formPattern =
     Seq (Group 1 (Plus (Chr isWord)))
    (Seq (Chr (\<lambda>c. c = CHR '':''))
    (Seq (Star (Chr isSpace))
         (Group 2
           (Seq (Plus (Chr (\<lambda>c. \<not> isSpace c)))
                (Star (Seq (Plus (Chr isSpace))
                           (Plus (Chr (\<lambda>c. \<not> isSpace c \<and> c \<noteq> CHR '':'')))))))))"

text \<open>
  \<open>extractTableData\<close>: the loop over the lines carries \<open>headers\<close> (\<open>None\<close> is the
  initial \<open>null\<close>) and the records found. A record starts as \<open>{}\<close> and takes its fields
  by assignment; what is pushed is the object with the own properties it has then (the
  values assigned are strings, which leave the prototype as it is).
\<close>

definition tableRecord :: "string list \<Rightarrow> string list \<Rightarrow> jv" where
  "tableRecord headers columns =
     JObj (own (fold (\<lambda>(header, column) record. setProp header (orElse (JStr column) (JStr [])) record)
                  (zip headers columns) emptyObject))"

definition tableLine :: "string \<Rightarrow> string list option \<times> jv list \<Rightarrow> string list option \<times> jv list" where
  "tableLine line st =
     (if regexTest tablePattern line then
        (let columns = filter (\<lambda>col. 0 < length col) (splitWide [] line) in
         case fst st of
           None \<Rightarrow>
             if 1 < length columns
             then (Some (map (\<lambda>h. replaceSpaceRuns (toLowerCase h)) columns), snd st)
             else st
         | Some headers \<Rightarrow>
             if length columns = length headers
             then (fst st, snd st @ [tableRecord headers columns])
             else st)
      else st)"

definition extractTableData :: "string \<Rightarrow> jv list" where
  "extractTableData txt =
     (let lines = filter (\<lambda>line. 0 < length line) (map trim (splitOn newline txt))
      in snd (fold tableLine lines (None, [])))"

text \<open>\<open>extractKeyValuePairs\<close>: all the pairs go into one object by assignment; the object
  is pushed when it has an own key.\<close>

definition keyValueBody :: "string \<Rightarrow> rxmatch \<Rightarrow> jsobj \<Rightarrow> jsobj" where
  "keyValueBody txt m matches =
     setProp (replaceSpaceRuns (toLowerCase (trim (capture txt m 1))))
             (JStr (trim (capture txt m 2))) matches"

definition extractKeyValuePairs :: "string \<Rightarrow> jv list option" where
  "extractKeyValuePairs txt =
     (case execLoop (keyValueBody txt) keyValuePattern txt 0 emptyObject of
        None \<Rightarrow> None
      | Some matches \<Rightarrow> Some (if 0 < length (own matches) then [JObj (own matches)] else []))"

text \<open>\<open>extractFormData\<close>.\<close>

definition formBody :: "string \<Rightarrow> rxmatch \<Rightarrow> jsobj \<Rightarrow> jsobj" where
  "formBody txt m currentForm =
     setProp (replaceSpaceRuns (toLowerCase (capture txt m 1)))
             (JStr (trim (capture txt m 2))) currentForm"

definition extractFormData :: "string \<Rightarrow> jv list option" where
  "extractFormData txt =
     (case execLoop (formBody txt) formPattern txt 0 emptyObject of
        None \<Rightarrow> None
      | Some currentForm \<Rightarrow>
          Some (if 0 < length (own currentForm) then [JObj (own currentForm)] else []))"

text \<open>
  \<open>extractDataFromPDF\<close>: the three extractors in turn, their records appended; one record
  with the full text when they found nothing.
\<close>

definition extractDataFromPDF :: "pdfData \<Rightarrow> jv list option" where
  "extractDataFromPDF pd =
     (let tableData = extractTableData (pdfText pd) in
      case extractKeyValuePairs (pdfText pd) of
        None \<Rightarrow> None
      | Some keyValueData \<Rightarrow>
          (case extractFormData (pdfText pd) of
             None \<Rightarrow> None
           | Some formData \<Rightarrow>
               (let found = tableData @ keyValueData @ formData in
                Some (if length found = 0
                      then [JObj [(''content'', JStr (pdfText pd)),
                                  (''type'', JStr ''full_text''),
                                  (''pages'', JNum (numpages pd))]]
                      else found))))"

text \<open>What a \<open>validate...Record\<close> function returns: \<open>{isValid, errors}\<close>.\<close>

record validation =
  isValid :: bool
  messages :: "string list"

text \<open>\<open>validatePdfRecord\<close>.\<close>

definition validatePdfRecord :: "jv \<Rightarrow> validation" where
  "validatePdfRecord record =
     (let errs = (if \<not> truthy record \<or> length (ownEntries record) = 0 then [''Empty record''] else [])
      in \<lparr>isValid = (length errs = 0), messages = errs\<rparr>)"

text \<open>
  The two object literals of the loop in \<open>process\<close>: the record pushed for a valid item,
  \<open>made\<close> being the number of records made before it, and the error entry pushed for
  any other item.
\<close>

definition pdfRecord :: "env \<Rightarrow> nat \<Rightarrow> nat \<times> jv \<Rightarrow> jv" where
  "pdfRecord e made indexed =
     JObj (spreadWith (snd indexed)
       [(''_id'', JStr (genId e made)),
        (''_processedAt'', JDate (now e made)),
        (''_index'', JNum (int (fst indexed)))])"

definition pdfErrorEntry :: "validation \<Rightarrow> nat \<times> jv \<Rightarrow> jv" where
  "pdfErrorEntry validation indexed =
     JObj [(''index'', JNum (int (fst indexed))),
           (''data'', snd indexed),
           (''errors'', JArr (map JStr (messages validation))),
           (''type'', JStr ''validation_error'')]"

text \<open>The body of \<open>extractedData.forEach((item, index) => ...)\<close> in \<open>process\<close>.\<close>

definition pdfItem :: "env \<Rightarrow> nat \<times> jv \<Rightarrow> jv list \<times> jv list \<Rightarrow> jv list \<times> jv list" where
  "pdfItem e indexed acc =
     (let records = fst acc; errs = snd acc;
          validation = validatePdfRecord (snd indexed)
      in if isValid validation
         then (records @ [pdfRecord e (length records) indexed], errs)
         else (records, errs @ [pdfErrorEntry validation indexed]))"

text \<open>
  \<open>pdfProcessor.process(file, metadata)\<close>. Reading and parsing the file is the library's
  part: \<open>parsed\<close> is what it gives, the parsed document or the message of the error it
  throws. \<open>Inl message\<close> is the \<open>Error\<close> the processor throws.
\<close>

definition pdfProcess :: "env \<Rightarrow> upload \<Rightarrow> string + pdfData \<Rightarrow> (string + processingResult) option" where
  "pdfProcess e file parsed =
     (if \<not> hasFileData file then Some (Inl ''PDF processing failed: No file data provided'')
      else case parsed of
        Inl message \<Rightarrow> Some (Inl (''PDF processing failed: '' @ message))
      | Inr pd \<Rightarrow>
          (case extractDataFromPDF pd of
             None \<Rightarrow> None
           | Some extractedData \<Rightarrow>
               (let acc = fold (pdfItem e) (enumerate 0 extractedData) ([], []);
                    records = fst acc; errs = snd acc
                in Some (Inr \<lparr>data = records, errors = errs,
                     metadata =
                       [(''pages'', JNum (numpages pd)),
                        (''textLength'', JNum (int (length (pdfText pd)))),
                        (''totalItems'', JNum (int (length records + length errs))),
                        (''validItems'', JNum (int (length records))),
                        (''errorItems'', JNum (int (length errs))),
                        (''info'', orElse (info pd) (JObj []))]\<rparr>))))"

section \<open>The Excel processor (backend/processors/excelProcessor.js)\<close>

text \<open>
  A workbook as the spreadsheet library reads it: the sheets in the order of
  \<open>SheetNames\<close>, each with the rows \<open>sheet_to_json(..., {header: 1, defval: null})\<close>
  gives, a row being the array of its cells.
\<close>

type_synonym worksheet = "jv list list"
type_synonym workbook = "(string \<times> worksheet) list"

text \<open>\<open>row[colIndex]\<close>: \<open>undefined\<close> beyond the end of the row.\<close>

definition cellAt :: "jv list \<Rightarrow> nat \<Rightarrow> jv" where
  "cellAt row colIndex = (if colIndex < length row then row ! colIndex else JUndefined)"

text \<open>
  \<open>headers.forEach((header, colIndex) => { record[header] = row[colIndex] || null; })\<close>
  on \<open>record = {}\<close>; the key is the header as \<open>String\<close> prints it, which may throw. The
  processor reads the own properties of the record only (\<open>Object.values\<close>, the spread),
  so that the record is given by these.
\<close>

definition excelField :: "printer \<Rightarrow> jv list \<Rightarrow> nat \<times> jv \<Rightarrow> jsobj \<Rightarrow> string + jsobj" where
  "excelField pr row indexed record =
     (case stringOf pr (snd indexed) of
        Inl message \<Rightarrow> Inl message
      | Inr key \<Rightarrow> Inr (setProp key (orElse (cellAt row (fst indexed)) JNull) record))"

definition excelRecord :: "printer \<Rightarrow> jv list \<Rightarrow> jv list \<Rightarrow> string + obj" where
  "excelRecord pr headers row =
     (case foldThrowing (excelField pr row) (enumerate 0 headers) emptyObject of
        Inl message \<Rightarrow> Inl message
      | Inr record \<Rightarrow> Inr (own record))"

text \<open>\<open>validateExcelRecord\<close>.\<close>

definition validateExcelRecord :: "obj \<Rightarrow> validation" where
  "validateExcelRecord record =
     (let hasData = list_ex (\<lambda>v. v \<noteq> JNull \<and> v \<noteq> JUndefined \<and> v \<noteq> JStr []) (map snd record)
      in if \<not> hasData then \<lparr>isValid = False, messages = [''Empty row'']\<rparr>
         else \<lparr>isValid = True, messages = []\<rparr>)"

text \<open>
  The two object literals of the loop over the rows: the record pushed for a valid row,
  \<open>made\<close> being the number of records made before it, and the error entry pushed for
  any other row.
\<close>

definition excelDataRecord :: "env \<Rightarrow> nat \<Rightarrow> string \<Rightarrow> nat \<Rightarrow> obj \<Rightarrow> jv" where
  "excelDataRecord e made sheetName index record =
     JObj (spreadWith (JObj record)
       [(''_sheet'', JStr sheetName),
        (''_row'', JNum (int index + 2)),
        (''_id'', JStr (genId e made)),
        (''_processedAt'', JDate (now e made))])"

definition excelErrorEntry :: "validation \<Rightarrow> string \<Rightarrow> nat \<Rightarrow> obj \<Rightarrow> jv" where
  "excelErrorEntry validation sheetName index record =
     JObj [(''sheet'', JStr sheetName),
           (''row'', JNum (int index + 2)),
           (''data'', JObj record),
           (''errors'', JArr (map JStr (messages validation))),
           (''type'', JStr ''validation_error'')]"

text \<open>The body of \<open>rows.forEach((row, index) => ...)\<close>.\<close>

definition excelRow ::
  "printer \<Rightarrow> env \<Rightarrow> string \<Rightarrow> jv list \<Rightarrow> nat \<times> jv list \<Rightarrow> jv list \<times> jv list
   \<Rightarrow> string + jv list \<times> jv list" where
  "excelRow pr e sheetName headers indexed acc =
     (case excelRecord pr headers (snd indexed) of
        Inl message \<Rightarrow> Inl message
      | Inr record \<Rightarrow>
          (let index = fst indexed; allData = fst acc; allErrors = snd acc;
               validation = validateExcelRecord record
           in if isValid validation
              then Inr (allData @ [excelDataRecord e (length allData) sheetName index record], allErrors)
              else Inr (allData, allErrors @ [excelErrorEntry validation sheetName index record])))"

text \<open>The body of \<open>for (const sheetName of sheetNames)\<close>: an empty sheet is skipped, the
  first row of any other gives the headers.\<close>

definition excelSheet ::
  "printer \<Rightarrow> env \<Rightarrow> string \<times> worksheet \<Rightarrow> jv list \<times> jv list \<Rightarrow> string + jv list \<times> jv list" where
  "excelSheet pr e sheet acc =
     (case snd sheet of
        [] \<Rightarrow> Inr acc
      | headers # rows \<Rightarrow> foldThrowing (excelRow pr e (fst sheet) headers) (enumerate 0 rows) acc)"

text \<open>
  \<open>excelProcessor.process(file, metadata)\<close>; \<open>loaded\<close> is what reading the workbook
  gives, the workbook or the message of the error thrown.
\<close>

definition excelProcess ::
  "printer \<Rightarrow> env \<Rightarrow> upload \<Rightarrow> string + workbook \<Rightarrow> string + processingResult" where
  "excelProcess pr e file loaded =
     (if \<not> hasFileData file then Inl ''Excel processing failed: No file data provided''
      else case loaded of
        Inl message \<Rightarrow> Inl (''Excel processing failed: '' @ message)
      | Inr wb \<Rightarrow>
          (case foldThrowing (excelSheet pr e) wb ([], []) of
             Inl message \<Rightarrow> Inl (''Excel processing failed: '' @ message)
           | Inr acc \<Rightarrow>
               (let allData = fst acc; allErrors = snd acc
                in Inr \<lparr>data = allData, errors = allErrors,
                     metadata =
                       [(''sheets'', JArr (map (\<lambda>sheet. JStr (fst sheet)) wb)),
                        (''totalSheets'', JNum (int (length wb))),
                        (''totalRows'', JNum (int (length allData + length allErrors))),
                        (''validRows'', JNum (int (length allData))),
                        (''errorRows'', JNum (int (length allErrors)))]\<rparr>)))"

section \<open>The CSV and XML processors (csvProcessor.js, xmlProcessor.js)\<close>

text \<open>
  Both processors run a script and read its JSON output; the two \<open>process\<close> methods
  differ in their constants only. \<open>outcome\<close> is what \<open>executePythonScript\<close> gives: the
  parsed output, or the message of the error it rejects with.
\<close>

text \<open>\<open>v.key\<close>: reading a property of \<open>null\<close> or \<open>undefined\<close> throws.\<close>

definition memberOf :: "jv \<Rightarrow> string \<Rightarrow> string + jv" where
  "memberOf v key =
     (if v = JNull then Inl ''Cannot read properties of null''
      else if v = JUndefined then Inl ''Cannot read properties of undefined''
      else Inr (propOf v key))"

text \<open>\<open>v.map\<close> is there for an array only.\<close>

definition arrayItems :: "string \<Rightarrow> jv \<Rightarrow> string + jv list" where
  "arrayItems name v = (case v of JArr items \<Rightarrow> Inr items | _ \<Rightarrow> Inl (name @ ''.map is not a function''))"

record scriptConstants =
  failurePrefix :: string
  processorName :: string
  sourceTag :: string
  scriptPath :: string

definition scriptRecord :: "scriptConstants \<Rightarrow> env \<Rightarrow> upload \<Rightarrow> nat \<times> jv \<Rightarrow> jv" where
  "scriptRecord k e file indexed =
     JObj (spreadWith (snd indexed)
       [(''_id'', JStr (genId e (fst indexed))),
        (''_processedAt'', JDate (now e (fst indexed))),
        (''_source'', JStr (sourceTag k)),
        (''_originalFile'', JStr (originalname file))])"

definition scriptError :: "scriptConstants \<Rightarrow> env \<Rightarrow> upload \<Rightarrow> nat \<Rightarrow> nat \<times> jv \<Rightarrow> string + jv" where
  "scriptError k e file made indexed =
     (case memberOf (snd indexed) ''type'' of
        Inl message \<Rightarrow> Inl message
      | Inr ty \<Rightarrow>
          Inr (JObj (spreadWith (snd indexed)
            [(''_timestamp'', JDate (now e (made + fst indexed))),
             (''_source'', JStr (sourceTag k)),
             (''_originalFile'', JStr (originalname file)),
             (''type'', orElse ty (JStr ''processing_error''))])))"

definition scriptBody ::
  "scriptConstants \<Rightarrow> env \<Rightarrow> upload \<Rightarrow> string + jv \<Rightarrow> string + processingResult" where
  "scriptBody k e file outcome =
     (case outcome of
        Inl message \<Rightarrow> Inl message
      | Inr result \<Rightarrow>
     (case memberOf result ''processedData'' of
        Inl message \<Rightarrow> Inl message
      | Inr pd \<Rightarrow>
     (case memberOf result ''errorLogs'' of
        Inl message \<Rightarrow> Inl message
      | Inr el \<Rightarrow>
     (case arrayItems ''processedData'' (orElse pd (JArr [])) of
        Inl message \<Rightarrow> Inl message
      | Inr processedData \<Rightarrow>
     (let records = map (scriptRecord k e file) (enumerate 0 processedData) in
      case arrayItems ''errorLogs'' (orElse el (JArr [])) of
        Inl message \<Rightarrow> Inl message
      | Inr errorLogs \<Rightarrow>
     (case mapThrowing (scriptError k e file (length processedData)) (enumerate 0 errorLogs) of
        Inl message \<Rightarrow> Inl message
      | Inr errs \<Rightarrow>
          Inr \<lparr>data = records, errors = errs,
               metadata =
                 [(''processor'', JStr (processorName k)),
                  (''totalItems'', JNum (int (length records + length errs))),
                  (''validItems'', JNum (int (length records))),
                  (''errorItems'', JNum (int (length errs))),
                  (''originalFile'', JStr (originalname file)),
                  (''fileSize'', JNum (filesize file)),
                  (''pythonScript'', JStr (scriptPath k))]\<rparr>))))))"

definition scriptProcess ::
  "scriptConstants \<Rightarrow> env \<Rightarrow> upload \<Rightarrow> string + jv \<Rightarrow> string + processingResult" where
  "scriptProcess k e file outcome =
     (case scriptBody k e file outcome of
        Inl message \<Rightarrow> Inl (failurePrefix k @ message)
      | Inr result \<Rightarrow> Inr result)"

text \<open>The constants of the two processors; the directory of the scripts is a parameter.\<close>

definition csvConstants :: "string \<Rightarrow> scriptConstants" where
  "csvConstants scriptsDir =
     \<lparr>failurePrefix = ''CSV processing failed: '',
      processorName = ''Python CSV Processor'',
      sourceTag = ''python_csv_processor'',
      scriptPath = scriptsDir @ ''/csv_processor.py''\<rparr>"

definition xmlConstants :: "string \<Rightarrow> scriptConstants" where
  "xmlConstants scriptsDir =
     \<lparr>failurePrefix = ''XML processing failed: '',
      processorName = ''Python XML Processor'',
      sourceTag = ''python_xml_processor'',
      scriptPath = scriptsDir @ ''/xml_processor.py''\<rparr>"

definition csvProcess :: "string \<Rightarrow> env \<Rightarrow> upload \<Rightarrow> string + jv \<Rightarrow> string + processingResult" where
  "csvProcess scriptsDir = scriptProcess (csvConstants scriptsDir)"

definition xmlProcess :: "string \<Rightarrow> env \<Rightarrow> upload \<Rightarrow> string + jv \<Rightarrow> string + processingResult" where
  "xmlProcess scriptsDir = scriptProcess (xmlConstants scriptsDir)"

section \<open>The image processor (backend/processors/imageProcessor.js)\<close>
section \<open>The image processor (backend/processors/imageProcessor.js)\<close>

text \<open>What the image library and the OCR engine return.\<close>

record imageInfo =
  width :: jv
  height :: jv
  format :: jv
  channels :: jv
  density :: jv

record ocrData =
  ocrText :: string
  confidence :: jv
  wordCount :: "nat option"

text \<open>The class \<open>[a-zA-Z]\<close>.\<close>

definition isLetter :: "char \<Rightarrow> bool" where
  "isLetter c \<longleftrightarrow> c \<in> set (asciiLower @ asciiUpper)"

text \<open>The five patterns of \<open>extractFormFromOCR\<close>, all with the flags \<open>gi\<close>:
  \<^verbatim>\<open>/(?:total|amount|price):\s*\$?([0-9,.]+)/\<close>,
  \<^verbatim>\<open>/(?:date|time):\s*([0-9\/\-\s:]+)/\<close>,
  \<^verbatim>\<open>/(?:name|customer):\s*([^\n\r]+)/\<close>,
  \<^verbatim>\<open>/(?:email|e-mail):\s*([a-zA-Z0-9._%+-]+@[a-zA-Z0-9.-]+\.[a-zA-Z]{2,})/\<close>,
  \<^verbatim>\<open>/(?:phone|tel|telephone):\s*([0-9\-\+\(\)\s]+)/\<close>.\<close>

definition labelled :: "string list \<Rightarrow> regex \<Rightarrow> regex" where
  "labelled names rest =
     Seq (anyWordCI names) (Seq (Chr (\<lambda>c. c = CHR '':'')) (Seq (Star (Chr isSpace)) rest))"

definition formPatterns :: "regex list" where
  "formPatterns =
    [labelled [''total'', ''amount'', ''price'']
       (Seq (Opt (Chr (\<lambda>c. c = CHR ''$'')))
            (Group 1 (Plus (Chr (\<lambda>c. isDigit c \<or> c = CHR '','' \<or> c = CHR ''.''))))),
     labelled [''date'', ''time'']
       (Group 1 (Plus (Chr (\<lambda>c. isDigit c \<or> c = CHR ''/'' \<or> c = CHR ''-'' \<or> isSpace c \<or> c = CHR '':'')))),
     labelled [''name'', ''customer'']
       (Group 1 (Plus (Chr (\<lambda>c. \<not> isLineTerminator c)))),
     labelled [''email'', ''e-mail'']
       (Group 1
         (Seq (Plus (Chr (\<lambda>c. isLetter c \<or> isDigit c \<or> c \<in> set ''._%+-'')))
         (Seq (Chr (\<lambda>c. c = CHR ''@''))
         (Seq (Plus (Chr (\<lambda>c. isLetter c \<or> isDigit c \<or> c \<in> set ''.-'')))
         (Seq (Chr (\<lambda>c. c = CHR ''.''))
         (Seq (Chr isLetter) (Plus (Chr isLetter)))))))),
     labelled [''phone'', ''tel'', ''telephone'']
       (Group 1 (Plus (Chr (\<lambda>c. isDigit c \<or> c \<in> set ''-+()'' \<or> isSpace c))))]"

text \<open>The body of the loop over the matches of one pattern:
  \<open>extracted[match[0].split(':')[0].toLowerCase().trim()] = match[1].trim()\<close>.\<close>

definition ocrFormBody :: "string \<Rightarrow> rxmatch \<Rightarrow> jsobj \<Rightarrow> jsobj" where
  "ocrFormBody txt m extracted =
     setProp
       (trim (toLowerCase (case splitOn CHR '':'' (matched txt m) of [] \<Rightarrow> [] | piece # _ \<Rightarrow> piece)))
       (JStr (trim (capture txt m 1))) extracted"

text \<open>\<open>patterns.forEach(pattern => { while (...) ... })\<close>\<close>

fun ocrFormLoop :: "string \<Rightarrow> regex list \<Rightarrow> jsobj \<Rightarrow> jsobj option" where
  "ocrFormLoop txt [] extracted = Some extracted"
| "ocrFormLoop txt (pattern # patterns) extracted =
     (case execLoop (ocrFormBody txt) pattern txt 0 extracted of
        None \<Rightarrow> None
      | Some extracted' \<Rightarrow> ocrFormLoop txt patterns extracted')"

definition extractFormFromOCR :: "string \<Rightarrow> jv list option" where
  "extractFormFromOCR txt =
     (case ocrFormLoop txt formPatterns emptyObject of
        None \<Rightarrow> None
      | Some extracted \<Rightarrow> Some (if 0 < length (own extracted) then [JObj (own extracted)] else []))"

text \<open>\<open>extractTableFromOCR\<close> returns the empty array it starts with.\<close>

definition extractTableFromOCR :: "string \<Rightarrow> jv list" where
  "extractTableFromOCR txt = []"

text \<open>\<open>extractKeyValueFromOCR\<close>: the pattern and the loop of \<open>extractKeyValuePairs\<close>.\<close>

definition extractKeyValueFromOCR :: "string \<Rightarrow> jv list option" where
  "extractKeyValueFromOCR txt =
     (case execLoop (keyValueBody txt) keyValuePattern txt 0 emptyObject of
        None \<Rightarrow> None
      | Some matches \<Rightarrow> Some (if 0 < length (own matches) then [JObj (own matches)] else []))"

definition extractDataFromOCR :: "string \<Rightarrow> jv list option" where
  "extractDataFromOCR txt =
     (let tableData = extractTableFromOCR txt in
      case extractFormFromOCR txt of
        None \<Rightarrow> None
      | Some formData \<Rightarrow>
          (case extractKeyValueFromOCR txt of
             None \<Rightarrow> None
           | Some keyValueData \<Rightarrow> Some (tableData @ formData @ keyValueData)))"

definition validateImageRecord :: "jv \<Rightarrow> validation" where
  "validateImageRecord record =
     (let errs = (if \<not> truthy record \<or> length (ownEntries record) = 0 then [''No data extracted''] else [])
      in \<lparr>isValid = (length errs = 0), messages = errs\<rparr>)"

definition imageMetadataOf :: "imageInfo \<Rightarrow> jv" where
  "imageMetadataOf im =
     JObj [(''width'', width im), (''height'', height im),
           (''format'', format im), (''channels'', channels im)]"

text \<open>
  The object literals of \<open>process\<close>: the record pushed for a valid item, \<open>made\<close>
  being the number of records made before it, the error entry pushed for any other item,
  and the record of the raw text.
\<close>

definition imageRecord :: "env \<Rightarrow> imageInfo \<Rightarrow> nat \<Rightarrow> nat \<times> jv \<Rightarrow> jv" where
  "imageRecord e im made indexed =
     JObj (spreadWith (snd indexed)
       [(''_id'', JStr (genId e made)),
        (''_processedAt'', JDate (now e made)),
        (''_index'', JNum (int (fst indexed))),
        (''_imageMetadata'', imageMetadataOf im)])"

definition imageErrorEntry :: "validation \<Rightarrow> nat \<times> jv \<Rightarrow> jv" where
  "imageErrorEntry validation indexed =
     JObj [(''index'', JNum (int (fst indexed))),
           (''data'', snd indexed),
           (''errors'', JArr (map JStr (messages validation))),
           (''type'', JStr ''validation_error'')]"

definition ocrTextRecord :: "env \<Rightarrow> imageInfo \<Rightarrow> ocrData \<Rightarrow> jv" where
  "ocrTextRecord e im ocr =
     JObj [(''_id'', JStr (genId e 0)),
           (''_processedAt'', JDate (now e 0)),
           (''type'', JStr ''ocr_text''),
           (''content'', JStr (ocrText ocr)),
           (''confidence'', confidence ocr),
           (''_imageMetadata'', imageMetadataOf im)]"

text \<open>The body of \<open>extractedData.forEach((item, index) => ...)\<close>.\<close>

definition imageItem ::
  "env \<Rightarrow> imageInfo \<Rightarrow> nat \<times> jv \<Rightarrow> jv list \<times> jv list \<Rightarrow> jv list \<times> jv list" where
  "imageItem e im indexed acc =
     (let records = fst acc; errs = snd acc;
          validation = validateImageRecord (snd indexed)
      in if isValid validation
         then (records @ [imageRecord e im (length records) indexed], errs)
         else (records, errs @ [imageErrorEntry validation indexed]))"

text \<open>
  \<open>imageProcessor.process(file, metadata)\<close>; \<open>loaded\<close> is what reading the image and
  the OCR give, or the message of the error thrown.
\<close>

definition imageProcess ::
  "env \<Rightarrow> upload \<Rightarrow> string + imageInfo \<times> ocrData \<Rightarrow> (string + processingResult) option" where
  "imageProcess e file loaded =
     (if \<not> hasFileData file then Some (Inl ''Image processing failed: No file data provided'')
      else case loaded of
        Inl message \<Rightarrow> Some (Inl (''Image processing failed: '' @ message))
      | Inr (im, ocr) \<Rightarrow>
          (case extractDataFromOCR (ocrText ocr) of
             None \<Rightarrow> None
           | Some extractedData \<Rightarrow>
               (let acc = fold (imageItem e im) (enumerate 0 extractedData) ([], []);
                    errs = snd acc;
                    records =
                      (if length (fst acc) = 0 \<and> 0 < length (trim (ocrText ocr))
                       then fst acc @ [ocrTextRecord e im ocr]
                       else fst acc)
                in Some (Inr \<lparr>data = records, errors = errs,
                     metadata =
                       [(''image'', JObj [(''width'', width im), (''height'', height im),
                                          (''format'', format im), (''channels'', channels im),
                                          (''density'', density im)]),
                        (''ocr'', JObj [(''confidence'', confidence ocr),
                                        (''textLength'', JNum (int (length (ocrText ocr)))),
                                        (''words'', JNum (case wordCount ocr of None \<Rightarrow> 0 | Some n \<Rightarrow> int n))]),
                        (''totalItems'', JNum (int (length records + length errs))),
                        (''validItems'', JNum (int (length records))),
                        (''errorItems'', JNum (int (length errs)))]\<rparr>))))"

section \<open>The dispatcher (backend/processors/index.js)\<close>

text \<open>\<open>s.includes(t)\<close> and \<open>s.startsWith(t)\<close>.\<close>

definition startsWith :: "string \<Rightarrow> string \<Rightarrow> bool" where
  "startsWith s t \<longleftrightarrow> take (length t) s = t"

fun includesStr :: "string \<Rightarrow> string \<Rightarrow> bool" where
  "includesStr [] t = (t = [])"
| "includesStr (c # cs) t = (startsWith (c # cs) t \<or> includesStr cs t)"

definition detectFileType :: "string \<Rightarrow> string \<Rightarrow> string" where
  "detectFileType mimeType filename =
     (let byMime =
        (if mimeType \<noteq> [] \<and> supportedFormat (Some mimeType) \<noteq> None then
           (if includesStr mimeType ''csv'' then Some ''csv''
            else if includesStr mimeType ''spreadsheet'' \<or> includesStr mimeType ''excel'' then Some ''excel''
            else if includesStr mimeType ''xml'' then Some ''xml''
            else if includesStr mimeType ''pdf'' then Some ''pdf''
            else if startsWith mimeType ''image/'' then Some ''image''
            else None)
         else None)
      in case byMime of
        Some label \<Rightarrow> label
      | None \<Rightarrow>
          (if filename \<noteq> [] then
             (let ext = extensionOf filename in
              if ext = ''.csv'' then ''csv''
              else if ext \<in> set [''.xlsx'', ''.xls''] then ''excel''
              else if ext = ''.xml'' then ''xml''
              else if ext = ''.pdf'' then ''pdf''
              else if ext \<in> set [''.jpg'', ''.jpeg'', ''.png'', ''.gif'', ''.webp'', ''.tiff'', ''.bmp'']
              then ''image''
              else ''unknown'')
           else ''unknown''))"

text \<open>
  The envelope \<open>{success, data, metadata, errors}\<close> that \<open>processFile\<close> returns.
\<close>

record envelope = processingResult +
  success :: bool

text \<open>
  \<open>options.specifiedFileType\<close> as \<open>getProcessor\<close> takes it: a falsy value is no
  specified type, a string is one, and any other value has no \<open>toLowerCase\<close>, so that
  the call throws.
\<close>

definition specifiedString :: "jv \<Rightarrow> string + string option" where
  "specifiedString v =
     (case v of
        JStr st \<Rightarrow> Inr (Some st)
      | _ \<Rightarrow> if truthy v then Inl ''specifiedType.toLowerCase is not a function'' else Inr None)"

text \<open>The \<open>metadata\<close> object literal, the options spread last; the options are the
  own properties of the \<open>options\<close> object.\<close>

definition commonMetadata :: "int \<Rightarrow> upload \<Rightarrow> obj \<Rightarrow> obj" where
  "commonMetadata processedAt file options =
     (let specifiedFileType = getProp options ''specifiedFileType'';
          detected = JStr (detectFileType (mimetype file) (originalname file))
      in spreadProps
           [(''originalName'', JStr (originalname file)),
            (''mimeType'', JStr (mimetype file)),
            (''size'', JNum (filesize file)),
            (''processedAt'', JDate processedAt),
            (''processor'', orElse specifiedFileType detected),
            (''specifiedType'', orElse specifiedFileType JNull),
            (''detectedType'', detected)]
           options)"

text \<open>\<open>metadata.processedAt.getTime()\<close> in the \<open>catch\<close> block.\<close>

definition processedAtTime :: "obj \<Rightarrow> string + int" where
  "processedAtTime md =
     (case getProp md ''processedAt'' of
        JDate t \<Rightarrow> Inr t
      | JNull \<Rightarrow> Inl ''Cannot read properties of null''
      | JUndefined \<Rightarrow> Inl ''Cannot read properties of undefined''
      | _ \<Rightarrow> Inl ''metadata.processedAt.getTime is not a function'')"

text \<open>
  \<open>processor.process(file, metadata)\<close>: \<open>run p file metadata\<close> is what the
  \<open>process\<close> method of the processor \<open>p\<close> does, it returns a result or throws an
  error with a message (\<open>Inl\<close>); an inherited member of the table has no \<open>process\<close>,
  so that the call throws a \<open>TypeError\<close>.
\<close>

definition callProcess ::
  "(processor \<Rightarrow> upload \<Rightarrow> obj \<Rightarrow> string + processingResult)
   \<Rightarrow> resolved \<Rightarrow> upload \<Rightarrow> obj \<Rightarrow> string + processingResult" where
  "callProcess run r file md =
     (case r of
        Processor p \<Rightarrow> run p file md
      | InheritedMember name \<Rightarrow> Inl ''processor.process is not a function'')"

text \<open>
  \<open>processFile(file, options)\<close>. The clock gives the readings of \<open>new Date()\<close> and
  \<open>Date.now()\<close> in the order of the calls. \<open>processFile\<close> returns an envelope or
  throws (\<open>Inl\<close>).
\<close>

definition processFile ::
  "(nat \<Rightarrow> int) \<Rightarrow> (processor \<Rightarrow> upload \<Rightarrow> obj \<Rightarrow> string + processingResult)
   \<Rightarrow> upload \<Rightarrow> obj \<Rightarrow> string + envelope" where
  "processFile clock run file options =
     (let specifiedFileType = getProp options ''specifiedFileType'' in
      case specifiedString specifiedFileType of
        Inl message \<Rightarrow> Inl message
      | Inr specified \<Rightarrow>
     (case getProcessor (Some (mimetype file)) (Some (originalname file)) specified of
        None \<Rightarrow>
          Inl (if truthy specifiedFileType
               then ''Unsupported specified file type: '' @ (case specified of Some st \<Rightarrow> st | None \<Rightarrow> [])
               else ''Unsupported file format: '' @ mimetype file @ '' ('' @ originalname file @ '')'')
      | Some processor \<Rightarrow>
     (let md = commonMetadata (clock 0) file options;
          startTime = clock 1
      in case callProcess run processor file md of
           Inr result \<Rightarrow>
             Inr \<lparr>data = data result,
                  errors = errors result,
                  metadata =
                    spreadProps
                      (spreadProps md
                         [(''recordCount'', JNum (int (length (data result)))),
                          (''processingTime'', JStr (showInt (clock 2 - startTime) @ ''ms''))])
                      (metadata result),
                  success = True\<rparr>
         | Inl message \<Rightarrow>
             (case processedAtTime md of
                Inl typeError \<Rightarrow> Inl typeError
              | Inr t \<Rightarrow>
                  Inr \<lparr>data = [],
                       errors = [JObj [(''type'', JStr ''processing_error''),
                                       (''message'', JStr message),
                                       (''timestamp'', JDate (clock 3))]],
                       metadata =
                         spreadProps md [(''processingTime'', JStr (showInt (clock 2 - t) @ ''ms''))],
                       success = False\<rparr>))))"

section \<open>The status of an error log (routes/errors.js, models/ErrorLog.js)\<close>

record errorLog =
  errorType :: string
  errorMessage :: string
  status :: string
  resolvedAt :: "int option"
  resolvedBy :: "string option"
  resolutionNotes :: "string option"

text \<open>The body of the request; a field that is absent is \<open>None\<close>.\<close>

record statusRequest =
  reqStatus :: "string option"
  reqResolvedBy :: "string option"
  reqResolutionNotes :: "string option"

definition validStatuses :: "string list" where
  "validStatuses = [''UNRESOLVED'', ''RESOLVED'', ''IGNORED'']"

text \<open>The HTTP status code, the \<open>success\<close> flag, the message and the document sent back.\<close>

datatype response = Response nat bool string "errorLog option"

text \<open>\<open>updateData\<close>, applied to a document as \<open>findByIdAndUpdate\<close> does.\<close>

definition applyUpdate :: "int \<Rightarrow> string \<Rightarrow> statusRequest \<Rightarrow> errorLog \<Rightarrow> errorLog" where
  "applyUpdate t newStatus req log =
     (if newStatus = ''RESOLVED''
      then (let resolved =
                  log\<lparr>status := newStatus,
                      resolvedAt := Some t,
                      resolvedBy := Some (case reqResolvedBy req of
                                            None \<Rightarrow> ''System''
                                          | Some name \<Rightarrow> if name = [] then ''System'' else name)\<rparr>
            in case reqResolutionNotes req of
                 None \<Rightarrow> resolved
               | Some notes \<Rightarrow> if notes = [] then resolved else resolved\<lparr>resolutionNotes := Some notes\<rparr>)
      else log\<lparr>status := newStatus\<rparr>)"

text \<open>
  \<open>PATCH /api/errors/:id/status\<close> on the collection of error logs, a map from ids to
  documents. \<open>isObjectId\<close> tells the ids the database accepts (any other gives the
  \<open>CastError\<close>); \<open>t\<close> is the time of the request. The result is the response and the
  collection afterwards.
\<close>

definition patchStatus ::
  "(string \<Rightarrow> bool) \<Rightarrow> int \<Rightarrow> (string \<rightharpoonup> errorLog) \<Rightarrow> string \<Rightarrow> statusRequest
   \<Rightarrow> response \<times> (string \<rightharpoonup> errorLog)" where
  "patchStatus isObjectId t logs ident req =
     (case reqStatus req of
        None \<Rightarrow>
          (Response 400 False ''Invalid status. Must be one of: UNRESOLVED, RESOLVED, IGNORED'' None, logs)
      | Some newStatus \<Rightarrow>
          if newStatus \<notin> set validStatuses then
            (Response 400 False ''Invalid status. Must be one of: UNRESOLVED, RESOLVED, IGNORED'' None, logs)
          else if \<not> isObjectId ident then
            (Response 400 False ''Invalid error ID format'' None, logs)
          else (case logs ident of
                  None \<Rightarrow> (Response 404 False ''Error log not found'' None, logs)
                | Some log \<Rightarrow>
                    (let updatedError = applyUpdate t newStatus req log
                     in (Response 200 True ''Error status updated successfully'' (Some updatedError),
                         logs(ident \<mapsto> updatedError)))))"

section \<open>Notions used in the statements\<close>


text \<open>
  Placing items by a test: each item that passes makes one record, the records in the
  order of their items and each made from its item and the number of records before it;
  each item that fails makes one error entry, the entries in the order of their items.
  No item makes both.
\<close>

definition placeItems ::
  "('p \<Rightarrow> bool) \<Rightarrow> (nat \<Rightarrow> 'p \<Rightarrow> jv) \<Rightarrow> ('p \<Rightarrow> jv) \<Rightarrow> 'p list \<Rightarrow> jv list \<times> jv list" where
  "placeItems valid record entry items =
     (map (\<lambda>(made, p). record made p) (enumerate 0 (filter valid items)),
      map entry (filter (\<lambda>p. \<not> valid p) items))"

text \<open>One round of a loop that places an item.\<close>

definition placeStep ::
  "('p \<Rightarrow> bool) \<Rightarrow> (nat \<Rightarrow> 'p \<Rightarrow> jv) \<Rightarrow> ('p \<Rightarrow> jv) \<Rightarrow> 'p \<Rightarrow> jv list \<times> jv list \<Rightarrow> jv list \<times> jv list" where
  "placeStep valid record entry p acc =
     (if valid p then (fst acc @ [record (length (fst acc)) p], snd acc)
      else (fst acc, snd acc @ [entry p]))"

text \<open>The tests of the three processors that validate.\<close>

definition pdfValid :: "nat \<times> jv \<Rightarrow> bool" where
  "pdfValid indexed \<longleftrightarrow> isValid (validatePdfRecord (snd indexed))"

definition imageValid :: "nat \<times> jv \<Rightarrow> bool" where
  "imageValid indexed \<longleftrightarrow> isValid (validateImageRecord (snd indexed))"

text \<open>
  A row of a workbook with the name of its sheet, the headers of the sheet and its index
  among the rows below the header row; the record of the row when each header can be
  printed; the test of the row, and the record and the error entry it makes.
\<close>

type_synonym sheetRow = "string \<times> jv list \<times> nat \<times> jv list"

definition rowFields :: "printer \<Rightarrow> sheetRow \<Rightarrow> obj" where
  "rowFields pr r =
     (case r of (sheetName, headers, index, row) \<Rightarrow>
        own (fold (\<lambda>(colIndex, header) record.
                     setProp (jsString pr header) (orElse (cellAt row colIndex) JNull) record)
                  (enumerate 0 headers) emptyObject))"

definition rowValid :: "printer \<Rightarrow> sheetRow \<Rightarrow> bool" where
  "rowValid pr r \<longleftrightarrow> isValid (validateExcelRecord (rowFields pr r))"

definition rowRecord :: "printer \<Rightarrow> env \<Rightarrow> nat \<Rightarrow> sheetRow \<Rightarrow> jv" where
  "rowRecord pr e made r =
     (case r of (sheetName, headers, index, row) \<Rightarrow>
        excelDataRecord e made sheetName index (rowFields pr r))"

definition rowErrorOf :: "printer \<Rightarrow> sheetRow \<Rightarrow> jv" where
  "rowErrorOf pr r =
     (case r of (sheetName, headers, index, row) \<Rightarrow>
        excelErrorEntry (validateExcelRecord (rowFields pr r)) sheetName index (rowFields pr r))"

text \<open>The rows of a workbook below the header rows, in the order of the sheets, each with
  the name of its sheet, the headers of the sheet and its index.\<close>

definition rowOf :: "string \<Rightarrow> jv list \<Rightarrow> nat \<times> jv list \<Rightarrow> sheetRow" where
  "rowOf sheetName headers indexed = (sheetName, headers, fst indexed, snd indexed)"

definition sheetRows :: "workbook \<Rightarrow> sheetRow list" where
  "sheetRows wb =
     concat (map (\<lambda>sheet.
                    case snd sheet of
                      [] \<Rightarrow> []
                    | headers # rows \<Rightarrow> map (rowOf (fst sheet) headers) (enumerate 0 rows))
                 wb)"

text \<open>The two arrays of the output of a script, an absent one being empty.\<close>

definition scriptArray :: "jv \<Rightarrow> string \<Rightarrow> jv" where
  "scriptArray result name = orElse (propOf result name) (JArr [])"

text \<open>The error entry of an item that fails its test, with the messages of the test.\<close>

definition pdfErrorOf :: "nat \<times> jv \<Rightarrow> jv" where
  "pdfErrorOf indexed = pdfErrorEntry (validatePdfRecord (snd indexed)) indexed"

definition imageErrorOf :: "nat \<times> jv \<Rightarrow> jv" where
  "imageErrorOf indexed = imageErrorEntry (validateImageRecord (snd indexed)) indexed"

section \<open>Concrete inputs\<close>

text \<open>A printer that prints the time value of a date and every number in decimal.\<close>

definition plainPrinter :: printer where
  "plainPrinter = \<lparr>toISOString = showInt, dateToString = showInt, largeNumberToString = showInt\<rparr>"


definition sampleEnv :: env where
  "sampleEnv = \<lparr>genId = (\<lambda>n. ''rec'' @ showNat n), now = (\<lambda>n. 1700000000000 + int n)\<rparr>"

text \<open>An upload stored on disk, with the given name and MIME type.\<close>

definition uploadNamed :: "string \<Rightarrow> string \<Rightarrow> upload" where
  "uploadNamed name mime =
     \<lparr>originalname = name, mimetype = mime, filesize = 120,
      path = Some ''uploads/file-1'', buffer = None\<rparr>"

definition tickingClock :: "nat \<Rightarrow> int" where
  "tickingClock n = 1700000000000 + 5 * int n"

text \<open>A processor whose \<open>process\<close> throws an error with the given message.\<close>

definition failingRun :: "string \<Rightarrow> processor \<Rightarrow> upload \<Rightarrow> obj \<Rightarrow> string + processingResult" where
  "failingRun message p file md = Inl message"

text \<open>Scenario B: the text \<open>"Name: John\nAge: 30"\<close> on one page.\<close>

definition scenarioText :: string where
  "scenarioText = ''Name: John'' @ [newline] @ ''Age: 30''"

definition scenarioPdf :: pdfData where
  "scenarioPdf = \<lparr>numpages = 1, pdfText = scenarioText, info = JObj []\<rparr>"

text \<open>A sheet with a header row and one row under it.\<close>

definition oneRowWorkbook :: "string \<Rightarrow> jv \<Rightarrow> workbook" where
  "oneRowWorkbook header cell = [(''Sheet1'', [[JStr header], [cell]])]"

text \<open>What a script prints: one record and one error log.\<close>

definition sampleScriptOutput :: jv where
  "sampleScriptOutput =
     JObj [(''processedData'', JArr [JObj [(''name'', JStr ''Ann'')]]),
           (''errorLogs'', JArr [JObj [(''row'', JNum 2), (''message'', JStr ''Name is required'')]])]"

text \<open>An image and the text read from it.\<close>

definition sampleImage :: imageInfo where
  "sampleImage =
     \<lparr>width = JNum 640, height = JNum 480, format = JStr ''png'', channels = JNum 3,
      density = JNum 72\<rparr>"

definition sampleOcr :: ocrData where
  "sampleOcr = \<lparr>ocrText = ''Total: $12.50'', confidence = JNum 91, wordCount = Some 2\<rparr>"

text \<open>An id of 24 hexadecimal digits, as the database casts it.\<close>

definition isObjectIdString :: "string \<Rightarrow> bool" where
  "isObjectIdString ident \<longleftrightarrow> length ident = 24 \<and> list_all (\<lambda>c. c \<in> set ''0123456789abcdefABCDEF'') ident"

definition sampleId :: string where
  "sampleId = ''64b7f0c2a1d3e4f5a6b7c8d9''"

definition sampleLog :: "string \<Rightarrow> errorLog" where
  "sampleLog st =
     \<lparr>errorType = ''VALIDATION_ERROR'', errorMessage = ''Name is required'', status = st,
      resolvedAt = None, resolvedBy = None, resolutionNotes = None\<rparr>"


text \<open>The object \<open>JSON.parse('{"__proto__":null,"a":1}')\<close>, which has an own property
  \<open>__proto__\<close>, and the object that \<open>flattenObject\<close> makes of it.\<close>

definition protoKeyed :: jsobj where
  "protoKeyed = plainObject [(''__proto__'', JNull), (''a'', JNum 1)]"

definition protoLess :: jsobj where
  "protoLess = \<lparr>proto = NullPrototype, own = [(''a'', JNum 1)]\<rparr>"

section \<open>Properties of the registry\<close>

lemma sameLetter_toLowerChar: "sameLetter c (toLowerChar c)"
  unfolding sameLetter_def toLowerChar_def
  by (auto split: option.splits dest: map_of_SomeD)

lemma equalIgnoringCase_toLowerCase: "equalIgnoringCase s (toLowerCase s)"
  unfolding equalIgnoringCase_def toLowerCase_def
  by (induction s) (simp_all add: sameLetter_toLowerChar)

lemma zip_letters_distinct: "distinct (map fst (zip upperLetters lowerLetters))"
  by code_simp

lemma upper_not_lower: "list_all (\<lambda>c. c \<notin> set lowerLetters) upperLetters"
  by code_simp

lemma upper_lower_disjoint: "set upperLetters \<inter> set lowerLetters = {}"
  using upper_not_lower by (auto simp: list_all_iff)

lemma lowerLetter_fixed:
  assumes "b \<in> set lowerLetters"
  shows "toLowerChar b = b"
proof -
  have "b \<notin> set upperLetters" using assms upper_lower_disjoint by blast
  then have "b \<notin> fst ` set (zip upperLetters lowerLetters)"
    by (auto dest: set_zip_leftD)
  then have "map_of (zip upperLetters lowerLetters) b = None"
    by (simp add: map_of_eq_None_iff)
  then show ?thesis by (simp add: toLowerChar_def)
qed

lemma sameLetter_lower:
  assumes "sameLetter a b" "b \<in> set lowerLetters"
  shows "toLowerChar a = b"
proof -
  from assms(1) consider "a = b" | "(a, b) \<in> set (zip upperLetters lowerLetters)"
    | "(b, a) \<in> set (zip upperLetters lowerLetters)"
    unfolding sameLetter_def by blast
  then show ?thesis
  proof cases
    case 1
    then show ?thesis using assms(2) by (simp add: lowerLetter_fixed)
  next
    case 2
    have "map_of (zip upperLetters lowerLetters) a = Some b"
      using zip_letters_distinct 2 by (rule map_of_is_SomeI)
    then show ?thesis by (simp add: toLowerChar_def)
  next
    case 3
    then have "b \<in> set upperLetters" by (rule set_zip_leftD)
    with assms(2) upper_lower_disjoint show ?thesis by blast
  qed
qed

lemma equalIgnoringCase_lower:
  "equalIgnoringCase s t \<Longrightarrow> set t \<subseteq> set lowerLetters \<Longrightarrow> toLowerCase s = t"
  unfolding equalIgnoringCase_def toLowerCase_def
  by (induction s t rule: list_all2_induct) (simp_all add: sameLetter_lower)

lemma canonicalLabel_lower: "set (canonicalLabel p) \<subseteq> set lowerLetters"
  by (cases p) (simp_all add: lowerLetters_def asciiLower_def)

lemma specifiedSwitch_canonicalLabel: "specifiedSwitch (canonicalLabel p) = Some p"
  by (cases p) (simp_all add: specifiedSwitch_def)

lemma specifiedSwitch_Some: "specifiedSwitch l = Some p \<Longrightarrow> l = canonicalLabel p"
  by (auto simp: specifiedSwitch_def split: if_splits)

text \<open>
  Claim C2. A specified type that equals one of the five canonical labels up to case, and
  so is a non-empty string, selects the processor of that label, whatever the MIME type
  and the file name are.
\<close>

theorem getProcessor_specified_override:
  assumes "equalIgnoringCase specifiedType (canonicalLabel p)"
  shows "specifiedType \<noteq> []
         \<and> getProcessor mimeType filename (Some specifiedType) = Some (Processor p)"
proof -
  have low: "toLowerCase specifiedType = canonicalLabel p"
    using assms canonicalLabel_lower by (rule equalIgnoringCase_lower)
  have ne: "specifiedType \<noteq> []"
    using assms by (cases p) (auto simp: equalIgnoringCase_def)
  show ?thesis
    using ne by (simp add: getProcessor_def low specifiedSwitch_canonicalLabel)
qed

theorem getProcessor_specified_override_witness:
  "equalIgnoringCase ''CsV'' (canonicalLabel csvProcessor)
   \<and> getProcessor (Some ''application/pdf'') (Some ''scan.png'') (Some ''CsV'')
       = Some (Processor csvProcessor)"
proof -
  have h: "equalIgnoringCase ''CsV'' (canonicalLabel csvProcessor)" by code_simp
  from getProcessor_specified_override [OF h] h show ?thesis by blast
qed

text \<open>
  Claim C4. When no type is specified, or the specified type is none of the five
  canonical labels up to case, a MIME type that has an entry in the table selects the
  processor of that entry, also when the extension of the file name maps to another
  processor.
\<close>

theorem getProcessor_mime_precedence:
  assumes "specifiedType = None
           \<or> (\<exists>st. specifiedType = Some st \<and> (\<forall>l. \<not> equalIgnoringCase st (canonicalLabel l)))"
    and "map_of SUPPORTED_FORMATS mimeType = Some p"
    and "byExtension filename = Some q"
    and "q \<noteq> p"
  shows "getProcessor (Some mimeType) filename specifiedType = Some (Processor p)
         \<and> getProcessor (Some mimeType) filename specifiedType \<noteq> Some (Processor q)"
proof -
  have det: "byDetection (Some mimeType) filename = Some (Processor p)"
    using assms(2) by (simp add: byDetection_def supportedFormat_def)
  have "getProcessor (Some mimeType) filename specifiedType = Some (Processor p)"
  proof (cases specifiedType)
    case None
    then show ?thesis by (simp add: getProcessor_def det)
  next
    case (Some st)
    with assms(1) have no: "\<And>l. \<not> equalIgnoringCase st (canonicalLabel l)" by auto
    have "specifiedSwitch (toLowerCase st) = None"
    proof (cases "specifiedSwitch (toLowerCase st)")
      case None
      then show ?thesis .
    next
      case (Some l)
      then have "toLowerCase st = canonicalLabel l" by (rule specifiedSwitch_Some)
      then have "equalIgnoringCase st (canonicalLabel l)"
        using equalIgnoringCase_toLowerCase [of st] by simp
      with no show ?thesis by blast
    qed
    with Some show ?thesis by (simp add: getProcessor_def det)
  qed
  with assms(4) show ?thesis by simp
qed

theorem getProcessor_mime_precedence_witness:
  "map_of SUPPORTED_FORMATS ''application/pdf'' = Some pdfProcessor
   \<and> byExtension (Some ''report.CSV'') = Some csvProcessor
   \<and> csvProcessor \<noteq> pdfProcessor
   \<and> getProcessor (Some ''application/pdf'') (Some ''report.CSV'') None = Some (Processor pdfProcessor)
   \<and> (\<forall>l. \<not> equalIgnoringCase ''json'' (canonicalLabel l))
   \<and> getProcessor (Some ''application/pdf'') (Some ''report.CSV'') (Some ''json'')
       = Some (Processor pdfProcessor)"
proof -
  have h1: "map_of SUPPORTED_FORMATS ''application/pdf'' = Some pdfProcessor" by code_simp
  have h2: "byExtension (Some ''report.CSV'') = Some csvProcessor" by code_simp
  have h3: "csvProcessor \<noteq> pdfProcessor" by simp
  have h4: "\<forall>l. \<not> equalIgnoringCase ''json'' (canonicalLabel l)"
  proof
    fix l
    have "length (canonicalLabel l) \<noteq> length ''json''" by (cases l) simp_all
    then show "\<not> equalIgnoringCase ''json'' (canonicalLabel l)"
      unfolding equalIgnoringCase_def by (auto dest: list_all2_lengthD)
  qed
  from getProcessor_mime_precedence [of None, OF _ h1 h2 h3]
  have a: "getProcessor (Some ''application/pdf'') (Some ''report.CSV'') None = Some (Processor pdfProcessor)"
    by blast
  from getProcessor_mime_precedence [of "Some ''json''", OF _ h1 h2 h3] h4
  have b: "getProcessor (Some ''application/pdf'') (Some ''report.CSV'') (Some ''json'')
             = Some (Processor pdfProcessor)"
    by blast
  from h1 h2 h3 h4 a b show ?thesis by blast
qed

section \<open>Properties of the export formatter\<close>

text \<open>The two examples of the specification hold on the code.\<close>

lemma flattenObject_nested_example:
  "flattenObject pr (plainObject [(''a'', JObj [(''b'', JNum 1)])])
   = Inr (plainObject [(''a.b'', JNum 1)])"
  by code_simp

lemma flattenObject_array_example:
  "flattenObject pr (plainObject [(''a'', JArr [JNum 1, JNum 2])])
   = Inr (plainObject [(''a'', JStr ''1, 2'')])"
  by code_simp

text \<open>
  Claim C8 fails on the code. The compound key is built by
  \<open>prefix ? `${prefix}${separator}${key}` : key\<close>, which takes the empty string, the
  parameter's default for "no prefix", for a falsy prefix: the keys of an object nested
  under the key \<open>""\<close> are not joined to that key. \<open>{"": {b: 1}}\<close> flattens to
  \<open>{"b": 1}\<close>, where the compound key joined by \<open>'.'\<close> is \<open>".b"\<close>.
\<close>

theorem flattenObject_empty_key_unjoined:
  "flattenObject pr (plainObject [([], JObj [(''b'', JNum 1)])])
   = Inr (plainObject [(''b'', JNum 1)])"
  by code_simp

text \<open>
  A second slip concerns the keys the result is built with: an array under the key
  \<open>__proto__\<close> is joined, but the assignment of the joined string to
  \<open>flattened['__proto__']\<close> makes no property, and the field is lost.
\<close>

lemma flattenObject_proto_field_lost:
  "flattenObject pr (plainObject [(''__proto__'', JArr [JNum 1, JNum 2])]) = Inr (plainObject [])"
  by code_simp

text \<open>An object with an own property \<open>hasOwnProperty\<close> makes \<open>flattenObject\<close> throw.\<close>

lemma flattenObject_own_hasOwnProperty:
  assumes "map_of kvs ''hasOwnProperty'' = Some v"
  shows "flattenObject pr (plainObject kvs) = Inl ''obj.hasOwnProperty is not a function''"
proof -
  have "kvs \<noteq> []" using assms by auto
  then have "loopThrows (plainObject kvs)"
    using assms by (simp add: loopThrows_def forInKeys_def hasOwnPropertyFails_def plainObject_def)
  then show ?thesis
    by (simp add: flattenObject_def flattenObjectWith_def notAFunction_def)
qed

text \<open>An array with an element that cannot be printed makes \<open>flattenObject\<close> throw as
  well.\<close>

lemma flattenObject_unprintable_element:
  "flattenObject pr (plainObject [(''a'', JArr [JObj [(''toString'', JNum 1)]])])
   = Inl ''Cannot convert object to primitive value''"
  by code_simp

text \<open>
  Claim C10 fails on the code. For the object \<open>JSON.parse('{"__proto__":null,"a":1}')\<close>
  the first pass assigns \<open>flattened['__proto__'] = null\<close>, which takes the prototype
  from the result, \<open>{a: 1}\<close>; in the second pass the call \<open>obj.hasOwnProperty(key)\<close> on
  that result throws, so that \<open>flattenObject(flattenObject(x))\<close> has no value while
  \<open>flattenObject(x)\<close> has one.
\<close>

theorem flattenObject_second_pass_throws:
  "flattenObject pr protoKeyed = Inr protoLess
   \<and> flattenObject pr protoLess = Inl ''obj.hasOwnProperty is not a function''"
  by code_simp

text \<open>On an object that brings no such key the second pass changes nothing.\<close>

lemma flattenObject_twice_example:
  "flattenObject pr (plainObject [(''a'', JObj [(''b'', JNum 1)]), (''c'', JArr [JNull, JBool True])])
     = Inr (plainObject [(''a.b'', JNum 1), (''c'', JStr '', true'')])
   \<and> flattenObject pr (plainObject [(''a.b'', JNum 1), (''c'', JStr '', true'')])
     = Inr (plainObject [(''a.b'', JNum 1), (''c'', JStr '', true'')])"
  by code_simp




text \<open>An item with an own property \<open>hasOwnProperty\<close> makes the two exports throw before
  the writer is called.\<close>

lemma export_hasOwnProperty_item:
  "exportToCSV pr libs (JArr [JObj [(''hasOwnProperty'', JNum 1)]]) filename
     = Inl ''CSV export failed: obj.hasOwnProperty is not a function''
   \<and> exportToExcel pr libs (JArr [JObj [(''hasOwnProperty'', JNum 1)]]) filename sheetName
     = Inl ''Excel export failed: obj.hasOwnProperty is not a function''"
proof -
  have "flattenValue pr (JObj [(''hasOwnProperty'', JNum 1)])
        = Inl ''obj.hasOwnProperty is not a function''"
    unfolding flattenValue_def ownEntries_def
    by (simp add: flattenObject_own_hasOwnProperty [of _ "JNum 1"])
  then show ?thesis
    by (simp add: exportToCSV_def exportToExcel_def)
qed

section \<open>Properties of the status update\<close>

text \<open>
  Claim C9, amended. The update has no guard on the current status: for every log that
  exists under an id the database accepts, whatever its status is, a request for any of
  the three statuses is answered with 200 and stores that status. A request for any
  other status is answered with 400 and leaves the collection as it was.
\<close>

theorem patchStatus_sets_any_status:
  "(newStatus \<in> set validStatuses \<and> isObjectId ident \<and> logs ident = Some log \<longrightarrow>
      patchStatus isObjectId t logs ident (req\<lparr>reqStatus := Some newStatus\<rparr>)
        = (Response 200 True ''Error status updated successfully''
             (Some (applyUpdate t newStatus (req\<lparr>reqStatus := Some newStatus\<rparr>) log)),
           logs(ident \<mapsto> applyUpdate t newStatus (req\<lparr>reqStatus := Some newStatus\<rparr>) log))
      \<and> status (applyUpdate t newStatus (req\<lparr>reqStatus := Some newStatus\<rparr>) log) = newStatus)
   \<and> (newStatus \<notin> set validStatuses \<longrightarrow>
      patchStatus isObjectId t logs ident (req\<lparr>reqStatus := Some newStatus\<rparr>)
        = (Response 400 False ''Invalid status. Must be one of: UNRESOLVED, RESOLVED, IGNORED'' None, logs))"
  by (simp add: patchStatus_def applyUpdate_def Let_def split: option.splits)

theorem patchStatus_sets_any_status_witness:
  "''UNRESOLVED'' \<in> set validStatuses \<and> isObjectIdString sampleId
   \<and> [sampleId \<mapsto> sampleLog ''RESOLVED''] sampleId = Some (sampleLog ''RESOLVED'')
   \<and> map_option status
        (snd (patchStatus isObjectIdString 1700000000000 [sampleId \<mapsto> sampleLog ''RESOLVED''] sampleId
               \<lparr>reqStatus = Some ''UNRESOLVED'', reqResolvedBy = None, reqResolutionNotes = None\<rparr>)
           sampleId) = Some ''UNRESOLVED''
   \<and> ''DONE'' \<notin> set validStatuses
   \<and> snd (patchStatus isObjectIdString 1700000000000 [sampleId \<mapsto> sampleLog ''RESOLVED''] sampleId
               \<lparr>reqStatus = Some ''DONE'', reqResolvedBy = None, reqResolutionNotes = None\<rparr>)
      = [sampleId \<mapsto> sampleLog ''RESOLVED'']"
proof -
  let ?req = "\<lparr>reqStatus = None, reqResolvedBy = None, reqResolutionNotes = None\<rparr>"
  let ?logs = "[sampleId \<mapsto> sampleLog ''RESOLVED'']"
  have v: "''UNRESOLVED'' \<in> set validStatuses" by (simp add: validStatuses_def)
  have i: "isObjectIdString sampleId" by (simp add: isObjectIdString_def sampleId_def)
  have l: "?logs sampleId = Some (sampleLog ''RESOLVED'')" by simp
  have n: "''DONE'' \<notin> set validStatuses" by (simp add: validStatuses_def)
  from patchStatus_sets_any_status
         [of "''UNRESOLVED''" isObjectIdString sampleId ?logs "sampleLog ''RESOLVED''" 1700000000000 ?req]
       v i l
  have 1: "map_option status
        (snd (patchStatus isObjectIdString 1700000000000 ?logs sampleId
               \<lparr>reqStatus = Some ''UNRESOLVED'', reqResolvedBy = None, reqResolutionNotes = None\<rparr>)
           sampleId) = Some ''UNRESOLVED''"
    by simp
  from patchStatus_sets_any_status
         [of "''DONE''" isObjectIdString sampleId ?logs "sampleLog ''RESOLVED''" 1700000000000 ?req]
       n
  have 2: "snd (patchStatus isObjectIdString 1700000000000 ?logs sampleId
               \<lparr>reqStatus = Some ''DONE'', reqResolvedBy = None, reqResolutionNotes = None\<rparr>)
      = ?logs"
    by simp
  from v i l n 1 2 show ?thesis by blast
qed

text \<open>
  The claim as stated fails: a log that is \<open>IGNORED\<close> becomes \<open>RESOLVED\<close> by a later
  request.
\<close>

theorem patchStatus_leaves_terminal_counterexample:
  "map_option status
     (snd (patchStatus isObjectIdString 1700000000000 [sampleId \<mapsto> sampleLog ''IGNORED''] sampleId
            \<lparr>reqStatus = Some ''RESOLVED'', reqResolvedBy = None, reqResolutionNotes = None\<rparr>)
        sampleId) = Some ''RESOLVED''"
  by (simp add: patchStatus_def applyUpdate_def validStatuses_def isObjectIdString_def sampleId_def
      sampleLog_def Let_def)

section \<open>Properties of the dispatcher\<close>

lemma map_of_insertIndex:
  "map_of ob k = None \<Longrightarrow> map_of (insertIndex k v ob) = (map_of ob)(k \<mapsto> v)"
proof (induction ob)
  case Nil
  then show ?case by simp
next
  case (Cons p ob)
  obtain k' v' where p: "p = (k', v')" by (cases p)
  from Cons.prems p have ne: "k \<noteq> k'" and rest: "map_of ob k = None"
    by (auto split: if_splits)
  have e: "map_of (p # ob) = (map_of ob)(k' \<mapsto> v')"
    by (simp add: p)
  show ?case
  proof (cases "isArrayIndex (fst p) \<and> digitsValue (fst p) < digitsValue k")
    case True
    then have "insertIndex k v (p # ob) = (k', v') # insertIndex k v ob"
      by (simp add: p)
    then have "map_of (insertIndex k v (p # ob)) = (map_of (insertIndex k v ob))(k' \<mapsto> v')"
      by simp
    also have "\<dots> = ((map_of ob)(k \<mapsto> v))(k' \<mapsto> v')"
      by (simp only: Cons.IH [OF rest])
    also have "\<dots> = ((map_of ob)(k' \<mapsto> v'))(k \<mapsto> v)"
      using ne by (rule fun_upd_twist)
    finally show ?thesis by (simp only: e)
  next
    case False
    then have "insertIndex k v (p # ob) = (k, v) # p # ob"
      by auto
    then have "map_of (insertIndex k v (p # ob)) = map_of ((k, v) # p # ob)"
      by (simp only:)
    also have "\<dots> = (map_of (p # ob))(k \<mapsto> v)"
      by simp
    finally show ?thesis .
  qed
qed

lemma map_add_fresh: "m k = None \<Longrightarrow> [k \<mapsto> v] ++ m = m(k \<mapsto> v)"
  by (rule ext) (auto simp: map_add_def split: option.splits)

lemma map_of_putProp: "map_of (putProp k v ob) = (map_of ob)(k \<mapsto> v)"
  by (simp add: putProp_def update_conv' map_of_insertIndex map_add_fresh)

lemma map_of_spreadProps:
  "map_of (spreadProps target source) = map_of target ++ map_of (rev source)"
  unfolding spreadProps_def
  by (induction source arbitrary: target) (auto simp: map_of_putProp)

lemma map_of_rev_absent: "map_of ob key = None \<Longrightarrow> map_of (rev ob) key = None"
  by (simp add: map_of_eq_None_iff)

lemma processedAtTime_commonMetadata:
  assumes "map_of options ''processedAt'' = None"
  shows "processedAtTime (commonMetadata t file options) = Inr t"
proof -
  have "map_of (rev options) ''processedAt'' = None"
    using assms by (rule map_of_rev_absent)
  then have "getProp (commonMetadata t file options) ''processedAt'' = JDate t"
    by (simp add: commonMetadata_def Let_def getProp_def map_of_spreadProps map_add_def)
  then show ?thesis by (simp add: processedAtTime_def)
qed

text \<open>
  When the options carry no \<open>processedAt\<close> of their own, a processor that throws gives
  the failure envelope: no data, one \<open>processing_error\<close> entry with the message thrown
  and a timestamp, and the metadata.
\<close>

lemma processFile_failure_envelope:
  assumes "specifiedString (getProp options ''specifiedFileType'') = Inr specified"
    and "getProcessor (Some (mimetype file)) (Some (originalname file)) specified = Some (Processor p)"
    and "run p file (commonMetadata (clock 0) file options) = Inl message"
    and "map_of options ''processedAt'' = None"
  shows "processFile clock run file options =
           Inr \<lparr>data = [],
                errors = [JObj [(''type'', JStr ''processing_error''),
                                (''message'', JStr message),
                                (''timestamp'', JDate (clock 3))]],
                metadata = spreadProps (commonMetadata (clock 0) file options)
                             [(''processingTime'', JStr (showInt (clock 2 - clock 0) @ ''ms''))],
                success = False\<rparr>"
  using assms(1-3)
  by (simp add: processFile_def callProcess_def Let_def processedAtTime_commonMetadata [OF assms(4)])

text \<open>
  Claim C1 fails on the code. The options are spread into the metadata after
  \<open>processedAt\<close>, and the \<open>catch\<close> block calls \<open>metadata.processedAt.getTime()\<close>:
  with an option \<open>processedAt\<close> that is no \<open>Date\<close>, a processor that throws makes
  \<open>processFile\<close> throw a \<open>TypeError\<close> instead of returning the failure envelope.
\<close>

theorem processFile_failure_escapes:
  "processFile tickingClock (failingRun ''CSV processing failed: Failed to start Python process'')
     (uploadNamed ''people.csv'' ''text/csv'') [(''processedAt'', JStr ''2024-01-01'')]
   = Inl ''metadata.processedAt.getTime is not a function''"
  by code_simp

lemma processFile_failure_envelope_example:
  "processFile tickingClock (failingRun ''CSV processing failed: Failed to start Python process'')
     (uploadNamed ''people.csv'' ''text/csv'') [(''userId'', JUndefined)]
   = Inr \<lparr>data = [],
          errors = [JObj [(''type'', JStr ''processing_error''),
                          (''message'', JStr ''CSV processing failed: Failed to start Python process''),
                          (''timestamp'', JDate 1700000000015)]],
          metadata =
            [(''originalName'', JStr ''people.csv''), (''mimeType'', JStr ''text/csv''),
             (''size'', JNum 120), (''processedAt'', JDate 1700000000000),
             (''processor'', JStr ''csv''), (''specifiedType'', JNull),
             (''detectedType'', JStr ''csv''), (''userId'', JUndefined),
             (''processingTime'', JStr ''10ms'')],
          success = False\<rparr>"
  by code_simp

text \<open>A MIME type that is the name of an inherited member of the table selects that
  member, which has no \<open>process\<close>: the failure envelope reports the \<open>TypeError\<close>.\<close>

lemma processFile_inherited_member_example:
  "processFile tickingClock (failingRun ''unused'') (uploadNamed ''notes.txt'' ''constructor'') []
   = Inr \<lparr>data = [],
          errors = [JObj [(''type'', JStr ''processing_error''),
                          (''message'', JStr ''processor.process is not a function''),
                          (''timestamp'', JDate 1700000000015)]],
          metadata =
            [(''originalName'', JStr ''notes.txt''), (''mimeType'', JStr ''constructor''),
             (''size'', JNum 120), (''processedAt'', JDate 1700000000000),
             (''processor'', JStr ''unknown''), (''specifiedType'', JNull),
             (''detectedType'', JStr ''unknown''),
             (''processingTime'', JStr ''10ms'')],
          success = False\<rparr>"
  by code_simp

section \<open>Properties of the Excel processor\<close>

text \<open>A cell that is falsy, the number \<open>0\<close> or \<open>false\<close> too, is stored as \<open>null\<close>.\<close>

lemma excelRecord_falsy_cell:
  "\<not> truthy cell \<Longrightarrow> \<not> unprintable header \<Longrightarrow> jsString pr header \<noteq> ''__proto__'' \<Longrightarrow>
   excelRecord pr [header] [cell] = Inr [(jsString pr header, JNull)]"
  by (simp add: excelRecord_def excelField_def stringOf_def cellAt_def orElse_def setProp_def
      emptyObject_def putProp_def)

text \<open>\<open>validateExcelRecord\<close> rejects a record exactly when each of its values is
  \<open>null\<close>, \<open>undefined\<close> or the empty string.\<close>

lemma validateExcelRecord_isValid:
  "isValid (validateExcelRecord record)
     \<longleftrightarrow> \<not> list_all (\<lambda>v. v = JNull \<or> v = JUndefined \<or> v = JStr []) (map snd record)"
  by (simp add: validateExcelRecord_def Let_def list_all_iff list_ex_iff)

text \<open>
  Claim C5 fails on the code. A row whose only cell is the number \<open>0\<close> has a field that
  is not \<open>null\<close>, \<open>undefined\<close> or the empty string, yet \<open>row[colIndex] || null\<close> has
  replaced the cell by \<open>null\<close> before \<open>validateExcelRecord\<close> looks at the record, and
  the row goes to the errors as an \<open>Empty row\<close>.
\<close>

theorem excelProcess_zero_row_rejected:
  "excelProcess plainPrinter sampleEnv (uploadNamed ''stock.xlsx'' ''application/vnd.ms-excel'')
     (Inr (oneRowWorkbook ''qty'' (JNum 0)))
   = Inr \<lparr>data = [],
          errors = [JObj [(''sheet'', JStr ''Sheet1''), (''row'', JNum 2),
                          (''data'', JObj [(''qty'', JNull)]),
                          (''errors'', JArr [JStr ''Empty row'']),
                          (''type'', JStr ''validation_error'')]],
          metadata = [(''sheets'', JArr [JStr ''Sheet1'']), (''totalSheets'', JNum 1),
                      (''totalRows'', JNum 1), (''validRows'', JNum 0), (''errorRows'', JNum 1)]\<rparr>"
  by code_simp

lemma excelProcess_one_row_example:
  "excelProcess plainPrinter sampleEnv (uploadNamed ''stock.xlsx'' ''application/vnd.ms-excel'')
     (Inr (oneRowWorkbook ''qty'' (JNum 7)))
   = Inr \<lparr>data = [JObj [(''qty'', JNum 7), (''_sheet'', JStr ''Sheet1''), (''_row'', JNum 2),
                         (''_id'', JStr ''rec0''), (''_processedAt'', JDate 1700000000000)]],
          errors = [],
          metadata = [(''sheets'', JArr [JStr ''Sheet1'']), (''totalSheets'', JNum 1),
                      (''totalRows'', JNum 1), (''validRows'', JNum 1), (''errorRows'', JNum 0)]\<rparr>"
  by code_simp

section \<open>Properties of the processing results\<close>

text \<open>A loop of rounds that place an item places the items.\<close>

lemma fold_placeStep:
  "fold (placeStep valid record entry) items acc =
     (fst acc @ map (\<lambda>(made, p). record made p) (enumerate (length (fst acc)) (filter valid items)),
      snd acc @ map entry (filter (\<lambda>p. \<not> valid p) items))"
proof (induction items arbitrary: acc)
  case Nil
  then show ?case by simp
next
  case (Cons p items)
  show ?case
  proof (cases "valid p")
    case True
    then have "fold (placeStep valid record entry) (p # items) acc
               = fold (placeStep valid record entry) items
                   (fst acc @ [record (length (fst acc)) p], snd acc)"
      by (simp add: placeStep_def)
    then show ?thesis using True by (simp add: Cons.IH)
  next
    case False
    then have "fold (placeStep valid record entry) (p # items) acc
               = fold (placeStep valid record entry) items (fst acc, snd acc @ [entry p])"
      by (simp add: placeStep_def)
    then show ?thesis using False by (simp add: Cons.IH)
  qed
qed

lemma fold_placeStep_empty:
  "fold (placeStep valid record entry) items ([], []) = placeItems valid record entry items"
  by (simp add: fold_placeStep placeItems_def)

lemma placeItems_length:
  "length (fst (placeItems valid record entry items)) + length (snd (placeItems valid record entry items))
   = length items"
  by (simp add: placeItems_def sum_length_filter_compl)

text \<open>The loop bodies of the three processors that validate are such rounds.\<close>

lemma pdfItem_placeStep: "pdfItem e = placeStep pdfValid (pdfRecord e) pdfErrorOf"
  by (rule ext, rule ext) (simp add: pdfItem_def placeStep_def pdfValid_def pdfErrorOf_def Let_def)

lemma imageItem_placeStep: "imageItem e im = placeStep imageValid (imageRecord e im) imageErrorOf"
  by (rule ext, rule ext) (simp add: imageItem_def placeStep_def imageValid_def imageErrorOf_def Let_def)

text \<open>The loops of the Excel processor throw when a header of a sheet with a row below
  the header row cannot be printed, and place the rows otherwise.\<close>

lemma foldThrowing_excelField:
  "foldThrowing (excelField pr row) (enumerate k headers) built =
     (if list_ex unprintable headers then Inl cannotConvert
      else Inr (fold (\<lambda>(colIndex, header) record.
                        setProp (jsString pr header) (orElse (cellAt row colIndex) JNull) record)
                     (enumerate k headers) built))"
  by (induction headers arbitrary: k built) (simp_all add: excelField_def stringOf_def)

lemma excelRecord_cases:
  "excelRecord pr headers row =
     (if list_ex unprintable headers then Inl cannotConvert
      else Inr (rowFields pr (sheetName, headers, index, row)))"
  by (simp add: excelRecord_def foldThrowing_excelField rowFields_def)

lemma excelRow_cases:
  "excelRow pr e sheetName headers (index, row) acc =
     (if list_ex unprintable headers then Inl cannotConvert
      else Inr (placeStep (rowValid pr) (rowRecord pr e) (rowErrorOf pr)
                  (sheetName, headers, index, row) acc))"
  by (simp add: excelRow_def excelRecord_cases [of pr headers row sheetName index] placeStep_def
      rowValid_def rowRecord_def rowErrorOf_def Let_def)

lemma foldThrowing_excelRow:
  "foldThrowing (excelRow pr e sheetName headers) indexed acc =
     (if list_ex unprintable headers \<and> indexed \<noteq> [] then Inl cannotConvert
      else Inr (fold (placeStep (rowValid pr) (rowRecord pr e) (rowErrorOf pr))
                  (map (rowOf sheetName headers) indexed) acc))"
proof (induction indexed arbitrary: acc)
  case Nil
  then show ?case by simp
next
  case (Cons p indexed)
  obtain index row where p: "p = (index, row)" by (cases p)
  have r: "rowOf sheetName headers (index, row) = (sheetName, headers, index, row)"
    by (simp add: rowOf_def)
  show ?case
    by (simp add: p excelRow_cases Cons.IH r)
qed

lemma excelSheet_Inr:
  assumes "excelSheet pr e sheet acc = Inr acc'"
  shows "acc' = fold (placeStep (rowValid pr) (rowRecord pr e) (rowErrorOf pr)) (sheetRows [sheet]) acc"
proof (cases "snd sheet")
  case Nil
  then show ?thesis using assms by (simp add: excelSheet_def sheetRows_def)
next
  case (Cons headers rows)
  then show ?thesis using assms
    by (simp add: excelSheet_def sheetRows_def foldThrowing_excelRow split: if_splits)
qed

lemma sheetRows_Cons: "sheetRows (sheet # wb) = sheetRows [sheet] @ sheetRows wb"
  by (simp add: sheetRows_def)

lemma foldThrowing_excelSheet:
  "foldThrowing (excelSheet pr e) wb acc = Inr acc' \<Longrightarrow>
   acc' = fold (placeStep (rowValid pr) (rowRecord pr e) (rowErrorOf pr)) (sheetRows wb) acc"
proof (induction wb arbitrary: acc)
  case Nil
  then show ?case by (simp add: sheetRows_def)
next
  case (Cons sheet wb)
  from Cons.prems obtain mid where mid: "excelSheet pr e sheet acc = Inr mid"
    and rest: "foldThrowing (excelSheet pr e) wb mid = Inr acc'"
    by (cases "excelSheet pr e sheet acc") auto
  have "acc' = fold (placeStep (rowValid pr) (rowRecord pr e) (rowErrorOf pr)) (sheetRows wb) mid"
    using rest by (rule Cons.IH)
  also have "mid = fold (placeStep (rowValid pr) (rowRecord pr e) (rowErrorOf pr)) (sheetRows [sheet]) acc"
    using mid by (rule excelSheet_Inr)
  finally show ?case by (simp only: sheetRows_Cons [of sheet wb] fold_append comp_def)
qed

text \<open>The script processors: each item of \<open>processedData\<close> makes one record, each item
  of \<open>errorLogs\<close> one error entry, and the total counts both.\<close>

lemma memberOf_Inr: "memberOf v key = Inr x \<Longrightarrow> x = propOf v key"
  by (auto simp: memberOf_def split: if_splits)

lemma arrayItems_Inr: "arrayItems name v = Inr items \<Longrightarrow> v = JArr items"
  by (cases v) (auto simp: arrayItems_def)

lemma mapThrowing_length: "mapThrowing f xs = Inr ys \<Longrightarrow> length ys = length xs"
  by (induction xs arbitrary: ys) (auto split: sum.splits)

lemma scriptProcess_result:
  assumes "scriptProcess k e file outcome = Inr r"
  shows "getProp (metadata r) ''totalItems'' = JNum (int (length (data r) + length (errors r)))
         \<and> (\<exists>result processedData errorLogs.
               outcome = Inr result
               \<and> scriptArray result ''processedData'' = JArr processedData
               \<and> scriptArray result ''errorLogs'' = JArr errorLogs
               \<and> data r = map (scriptRecord k e file) (enumerate 0 processedData)
               \<and> mapThrowing (scriptError k e file (length processedData)) (enumerate 0 errorLogs)
                   = Inr (errors r)
               \<and> length (data r) = length processedData
               \<and> length (errors r) = length errorLogs)"
proof -
  from assms have body: "scriptBody k e file outcome = Inr r"
    by (auto simp: scriptProcess_def split: sum.splits)
  then obtain result where o: "outcome = Inr result"
    by (cases outcome) (auto simp: scriptBody_def)
  from body o obtain pd where pd: "memberOf result ''processedData'' = Inr pd"
    by (cases "memberOf result ''processedData''") (auto simp: scriptBody_def)
  from body o pd obtain el where el: "memberOf result ''errorLogs'' = Inr el"
    by (cases "memberOf result ''errorLogs''") (auto simp: scriptBody_def)
  from body o pd el obtain processedData
    where ps: "arrayItems ''processedData'' (orElse pd (JArr [])) = Inr processedData"
    by (cases "arrayItems ''processedData'' (orElse pd (JArr []))") (auto simp: scriptBody_def)
  from body o pd el ps obtain errorLogs
    where es: "arrayItems ''errorLogs'' (orElse el (JArr [])) = Inr errorLogs"
    by (cases "arrayItems ''errorLogs'' (orElse el (JArr []))") (auto simp: scriptBody_def Let_def)
  from body o pd el ps es obtain errs
    where er: "mapThrowing (scriptError k e file (length processedData)) (enumerate 0 errorLogs) = Inr errs"
    by (cases "mapThrowing (scriptError k e file (length processedData)) (enumerate 0 errorLogs)")
       (auto simp: scriptBody_def Let_def)
  from body o pd el ps es er
  have d: "data r = map (scriptRecord k e file) (enumerate 0 processedData)"
    and ee: "errors r = errs"
    and md: "getProp (metadata r) ''totalItems''
             = JNum (int (length (map (scriptRecord k e file) (enumerate 0 processedData)) + length errs))"
    by (auto simp: scriptBody_def Let_def getProp_def)
  have total: "getProp (metadata r) ''totalItems'' = JNum (int (length (data r) + length (errors r)))"
    using md by (simp only: d ee)
  have a1: "scriptArray result ''processedData'' = JArr processedData"
    using memberOf_Inr [OF pd] arrayItems_Inr [OF ps] by (simp add: scriptArray_def)
  have a2: "scriptArray result ''errorLogs'' = JArr errorLogs"
    using memberOf_Inr [OF el] arrayItems_Inr [OF es] by (simp add: scriptArray_def)
  have l1: "length (data r) = length processedData"
    by (simp add: d)
  have l2: "length (errors r) = length errorLogs"
    using mapThrowing_length [OF er] by (simp add: ee)
  from er ee have er': "mapThrowing (scriptError k e file (length processedData)) (enumerate 0 errorLogs)
                        = Inr (errors r)"
    by simp
  from total o a1 a2 d er' l1 l2 show ?thesis by blast
qed

text \<open>The PDF processor places the items it extracts.\<close>

lemma pdfProcess_result:
  assumes "pdfProcess e file (Inr pd) = Some (Inr r)"
  shows "getProp (metadata r) ''totalItems'' = JNum (int (length (data r) + length (errors r)))
         \<and> (\<exists>items. extractDataFromPDF pd = Some items
              \<and> (data r, errors r) = placeItems pdfValid (pdfRecord e) pdfErrorOf (enumerate 0 items)
              \<and> length (data r) + length (errors r) = length items)"
proof -
  from assms obtain items where items: "extractDataFromPDF pd = Some items"
    by (auto simp: pdfProcess_def split: if_splits option.splits)
  let ?acc = "fold (pdfItem e) (enumerate 0 items) ([], [])"
  from assms items have d: "data r = fst ?acc" and er: "errors r = snd ?acc"
    and md: "getProp (metadata r) ''totalItems'' = JNum (int (length (fst ?acc) + length (snd ?acc)))"
    by (auto simp: pdfProcess_def Let_def getProp_def split: if_splits)
  have total: "getProp (metadata r) ''totalItems'' = JNum (int (length (data r) + length (errors r)))"
    using md by (simp only: d er)
  have acc: "?acc = placeItems pdfValid (pdfRecord e) pdfErrorOf (enumerate 0 items)"
    by (simp only: pdfItem_placeStep fold_placeStep_empty)
  have part: "(data r, errors r) = placeItems pdfValid (pdfRecord e) pdfErrorOf (enumerate 0 items)"
    by (simp only: d er prod.collapse acc)
  have "length (fst (placeItems pdfValid (pdfRecord e) pdfErrorOf (enumerate 0 items)))
        + length (snd (placeItems pdfValid (pdfRecord e) pdfErrorOf (enumerate 0 items)))
        = length (enumerate 0 items)"
    by (rule placeItems_length)
  then have len: "length (data r) + length (errors r) = length items"
    by (simp add: part [symmetric])
  from total items part len show ?thesis by blast
qed

text \<open>The image processor places the items it extracts, and adds the record of the
  raw text when no item has made a record and the text is not blank.\<close>

lemma imageProcess_result:
  assumes "imageProcess e file (Inr (im, ocr)) = Some (Inr r)"
  shows "getProp (metadata r) ''totalItems'' = JNum (int (length (data r) + length (errors r)))
         \<and> (\<exists>items made.
               extractDataFromOCR (ocrText ocr) = Some items
               \<and> (made, errors r) = placeItems imageValid (imageRecord e im) imageErrorOf (enumerate 0 items)
               \<and> data r = made @ (if made = [] \<and> trim (ocrText ocr) \<noteq> []
                                   then [ocrTextRecord e im ocr] else []))"
proof -
  from assms obtain items where items: "extractDataFromOCR (ocrText ocr) = Some items"
    by (auto simp: imageProcess_def split: if_splits option.splits)
  let ?acc = "fold (imageItem e im) (enumerate 0 items) ([], [])"
  let ?records = "if length (fst ?acc) = 0 \<and> 0 < length (trim (ocrText ocr))
                  then fst ?acc @ [ocrTextRecord e im ocr] else fst ?acc"
  from assms items have d: "data r = ?records" and er: "errors r = snd ?acc"
    and md: "getProp (metadata r) ''totalItems'' = JNum (int (length ?records + length (snd ?acc)))"
    by (auto simp: imageProcess_def Let_def getProp_def split: if_splits)
  have total: "getProp (metadata r) ''totalItems'' = JNum (int (length (data r) + length (errors r)))"
    using md by (simp only: d er)
  have acc: "?acc = placeItems imageValid (imageRecord e im) imageErrorOf (enumerate 0 items)"
    by (simp only: imageItem_placeStep fold_placeStep_empty)
  have part: "(fst ?acc, errors r)
              = placeItems imageValid (imageRecord e im) imageErrorOf (enumerate 0 items)"
    by (simp only: er prod.collapse acc)
  have dd: "data r = fst ?acc @ (if fst ?acc = [] \<and> trim (ocrText ocr) \<noteq> []
                                then [ocrTextRecord e im ocr] else [])"
    by (simp add: d)
  from total items part dd show ?thesis by blast
qed

text \<open>The Excel processor places the rows below the header rows, and counts them as
  \<open>totalRows\<close>.\<close>

lemma excelProcess_result:
  assumes "excelProcess pr e file (Inr wb) = Inr r"
  shows "getProp (metadata r) ''totalRows'' = JNum (int (length (data r) + length (errors r)))
         \<and> map_of (metadata r) ''totalItems'' = None
         \<and> (data r, errors r)
             = placeItems (rowValid pr) (rowRecord pr e) (rowErrorOf pr) (sheetRows wb)"
proof -
  from assms obtain acc where acc: "foldThrowing (excelSheet pr e) wb ([], []) = Inr acc"
    by (cases "foldThrowing (excelSheet pr e) wb ([], [])")
       (auto simp: excelProcess_def split: if_splits)
  from assms acc have d: "data r = fst acc" and er: "errors r = snd acc"
    and md: "getProp (metadata r) ''totalRows'' = JNum (int (length (fst acc) + length (snd acc)))"
    and no: "map_of (metadata r) ''totalItems'' = None"
    by (auto simp: excelProcess_def Let_def getProp_def split: if_splits)
  have total: "getProp (metadata r) ''totalRows'' = JNum (int (length (data r) + length (errors r)))"
    using md by (simp only: d er)
  have "acc = fold (placeStep (rowValid pr) (rowRecord pr e) (rowErrorOf pr)) (sheetRows wb) ([], [])"
    using acc by (rule foldThrowing_excelSheet)
  then have placed: "acc = placeItems (rowValid pr) (rowRecord pr e) (rowErrorOf pr) (sheetRows wb)"
    by (simp only: fold_placeStep_empty)
  have part: "(data r, errors r)
              = placeItems (rowValid pr) (rowRecord pr e) (rowErrorOf pr) (sheetRows wb)"
    by (simp only: d er prod.collapse placed [symmetric])
  from total no part show ?thesis by blast
qed

text \<open>A header that cannot be printed makes the Excel processor throw.\<close>

lemma excelProcess_unprintable_header_example:
  "excelProcess plainPrinter sampleEnv (uploadNamed ''people.xlsx'' ''application/vnd.ms-excel'')
     (Inr [(''Sheet1'', [[JObj [(''toString'', JNum 1)]], [JStr ''Ann'']])])
   = Inl ''Excel processing failed: Cannot convert object to primitive value''"
  by code_simp

text \<open>
  Claim C3, amended. In every result of the five processors each extracted item is
  placed in exactly one of \<open>data\<close> and \<open>errors\<close>. For the CSV and XML processors the
  items are those of the two arrays of the script's output: each item of
  \<open>processedData\<close> makes one record, each item of \<open>errorLogs\<close> one error entry. For
  the PDF and image processors and for the rows of the Excel processor below the header
  rows, an item that passes the validation makes one record and no error entry, any
  other item one error entry and no record, both in the order of the items. The image
  processor adds the record of the raw text to \<open>data\<close> exactly when no item has made
  a record and the text is not blank. The metadata of the CSV, XML, PDF and image
  processors reports \<open>totalItems\<close> as the number of records plus the number of error
  entries; the Excel processor reports that sum as \<open>totalRows\<close> and reports no
  \<open>totalItems\<close>.
\<close>

theorem processing_result_placement:
  "(csvProcess scriptsDir e file outcome = Inr r \<longrightarrow>
      getProp (metadata r) ''totalItems'' = JNum (int (length (data r) + length (errors r)))
      \<and> (\<exists>result processedData errorLogs.
            outcome = Inr result
            \<and> scriptArray result ''processedData'' = JArr processedData
            \<and> scriptArray result ''errorLogs'' = JArr errorLogs
            \<and> data r = map (scriptRecord (csvConstants scriptsDir) e file) (enumerate 0 processedData)
            \<and> mapThrowing (scriptError (csvConstants scriptsDir) e file (length processedData))
                  (enumerate 0 errorLogs) = Inr (errors r)
            \<and> length (data r) = length processedData
            \<and> length (errors r) = length errorLogs))
   \<and> (xmlProcess scriptsDir e file outcome = Inr r \<longrightarrow>
      getProp (metadata r) ''totalItems'' = JNum (int (length (data r) + length (errors r)))
      \<and> (\<exists>result processedData errorLogs.
            outcome = Inr result
            \<and> scriptArray result ''processedData'' = JArr processedData
            \<and> scriptArray result ''errorLogs'' = JArr errorLogs
            \<and> data r = map (scriptRecord (xmlConstants scriptsDir) e file) (enumerate 0 processedData)
            \<and> mapThrowing (scriptError (xmlConstants scriptsDir) e file (length processedData))
                  (enumerate 0 errorLogs) = Inr (errors r)
            \<and> length (data r) = length processedData
            \<and> length (errors r) = length errorLogs))
   \<and> (pdfProcess e file (Inr pd) = Some (Inr r) \<longrightarrow>
      getProp (metadata r) ''totalItems'' = JNum (int (length (data r) + length (errors r)))
      \<and> (\<exists>items. extractDataFromPDF pd = Some items
            \<and> (data r, errors r) = placeItems pdfValid (pdfRecord e) pdfErrorOf (enumerate 0 items)
            \<and> length (data r) + length (errors r) = length items))
   \<and> (imageProcess e file (Inr (im, ocr)) = Some (Inr r) \<longrightarrow>
      getProp (metadata r) ''totalItems'' = JNum (int (length (data r) + length (errors r)))
      \<and> (\<exists>items made.
            extractDataFromOCR (ocrText ocr) = Some items
            \<and> (made, errors r) = placeItems imageValid (imageRecord e im) imageErrorOf (enumerate 0 items)
            \<and> data r = made @ (if made = [] \<and> trim (ocrText ocr) \<noteq> []
                                then [ocrTextRecord e im ocr] else [])))
   \<and> (excelProcess pr e file (Inr wb) = Inr r \<longrightarrow>
      getProp (metadata r) ''totalRows'' = JNum (int (length (data r) + length (errors r)))
      \<and> map_of (metadata r) ''totalItems'' = None
      \<and> (data r, errors r)
          = placeItems (rowValid pr) (rowRecord pr e) (rowErrorOf pr) (sheetRows wb))"
  using scriptProcess_result pdfProcess_result imageProcess_result excelProcess_result
  unfolding csvProcess_def xmlProcess_def
  by blast

theorem processing_result_placement_witness:
  "csvProcess ''scripts'' sampleEnv (uploadNamed ''people.csv'' ''text/csv'') (Inr sampleScriptOutput)
     = Inr (projr (csvProcess ''scripts'' sampleEnv (uploadNamed ''people.csv'' ''text/csv'') (Inr sampleScriptOutput)))
   \<and> getProp (metadata (projr (csvProcess ''scripts'' sampleEnv (uploadNamed ''people.csv'' ''text/csv'')
                                    (Inr sampleScriptOutput)))) ''totalItems'' = JNum 2
   \<and> xmlProcess ''scripts'' sampleEnv (uploadNamed ''people.xml'' ''text/xml'') (Inr sampleScriptOutput)
     = Inr (projr (xmlProcess ''scripts'' sampleEnv (uploadNamed ''people.xml'' ''text/xml'') (Inr sampleScriptOutput)))
   \<and> getProp (metadata (projr (xmlProcess ''scripts'' sampleEnv (uploadNamed ''people.xml'' ''text/xml'')
                                    (Inr sampleScriptOutput)))) ''totalItems'' = JNum 2
   \<and> pdfProcess sampleEnv (uploadNamed ''card.pdf'' ''application/pdf'') (Inr scenarioPdf)
     = Some (Inr (projr (the (pdfProcess sampleEnv (uploadNamed ''card.pdf'' ''application/pdf'') (Inr scenarioPdf)))))
   \<and> getProp (metadata (projr (the (pdfProcess sampleEnv (uploadNamed ''card.pdf'' ''application/pdf'')
                                         (Inr scenarioPdf))))) ''totalItems'' = JNum 2
   \<and> imageProcess sampleEnv (uploadNamed ''bill.png'' ''image/png'') (Inr (sampleImage, sampleOcr))
     = Some (Inr (projr (the (imageProcess sampleEnv (uploadNamed ''bill.png'' ''image/png'')
                                 (Inr (sampleImage, sampleOcr))))))
   \<and> getProp (metadata (projr (the (imageProcess sampleEnv (uploadNamed ''bill.png'' ''image/png'')
                                         (Inr (sampleImage, sampleOcr)))))) ''totalItems'' = JNum 2
   \<and> excelProcess plainPrinter sampleEnv (uploadNamed ''people.xlsx'' ''application/vnd.ms-excel'')
        (Inr (oneRowWorkbook ''name'' (JStr ''Ann'')))
     = Inr (projr (excelProcess plainPrinter sampleEnv (uploadNamed ''people.xlsx'' ''application/vnd.ms-excel'')
                     (Inr (oneRowWorkbook ''name'' (JStr ''Ann'')))))
   \<and> getProp (metadata (projr (excelProcess plainPrinter sampleEnv
                                    (uploadNamed ''people.xlsx'' ''application/vnd.ms-excel'')
                                    (Inr (oneRowWorkbook ''name'' (JStr ''Ann'')))))) ''totalRows'' = JNum 1"
proof -
  let ?csv = "csvProcess ''scripts'' sampleEnv (uploadNamed ''people.csv'' ''text/csv'') (Inr sampleScriptOutput)"
  let ?xml = "xmlProcess ''scripts'' sampleEnv (uploadNamed ''people.xml'' ''text/xml'') (Inr sampleScriptOutput)"
  let ?pdf = "pdfProcess sampleEnv (uploadNamed ''card.pdf'' ''application/pdf'') (Inr scenarioPdf)"
  let ?img = "imageProcess sampleEnv (uploadNamed ''bill.png'' ''image/png'') (Inr (sampleImage, sampleOcr))"
  let ?xls = "excelProcess plainPrinter sampleEnv (uploadNamed ''people.xlsx'' ''application/vnd.ms-excel'')
                (Inr (oneRowWorkbook ''name'' (JStr ''Ann'')))"
  have h1: "?csv = Inr (projr ?csv)" by code_simp
  have h2: "?xml = Inr (projr ?xml)" by code_simp
  have h3: "?pdf = Some (Inr (projr (the ?pdf)))" by code_simp
  have h4: "?img = Some (Inr (projr (the ?img)))" by code_simp
  have h5: "?xls = Inr (projr ?xls)" by code_simp
  have n1: "length (data (projr ?csv)) + length (errors (projr ?csv)) = 2" by code_simp
  have n2: "length (data (projr ?xml)) + length (errors (projr ?xml)) = 2" by code_simp
  have n3: "length (data (projr (the ?pdf))) + length (errors (projr (the ?pdf))) = 2" by code_simp
  have n4: "length (data (projr (the ?img))) + length (errors (projr (the ?img))) = 2" by code_simp
  have n5: "length (data (projr ?xls)) + length (errors (projr ?xls)) = 1" by code_simp
  note t = processing_result_placement
  from t [THEN conjunct1, THEN mp, OF h1, THEN conjunct1]
  have c1: "getProp (metadata (projr ?csv)) ''totalItems'' = JNum 2"
    by (simp only: n1) simp
  from t [THEN conjunct2, THEN conjunct1, THEN mp, OF h2, THEN conjunct1]
  have c2: "getProp (metadata (projr ?xml)) ''totalItems'' = JNum 2"
    by (simp only: n2) simp
  from t [THEN conjunct2, THEN conjunct2, THEN conjunct1, THEN mp, OF h3, THEN conjunct1]
  have c3: "getProp (metadata (projr (the ?pdf))) ''totalItems'' = JNum 2"
    by (simp only: n3) simp
  from t [THEN conjunct2, THEN conjunct2, THEN conjunct2, THEN conjunct1, THEN mp, OF h4, THEN conjunct1]
  have c4: "getProp (metadata (projr (the ?img))) ''totalItems'' = JNum 2"
    by (simp only: n4) simp
  from t [THEN conjunct2, THEN conjunct2, THEN conjunct2, THEN conjunct2, THEN mp, OF h5, THEN conjunct1]
  have c5: "getProp (metadata (projr ?xls)) ''totalRows'' = JNum 1"
    by (simp only: n5) simp
  from h1 c1 h2 c2 h3 c3 h4 c4 h5 c5 show ?thesis by blast
qed

text \<open>
  The claim as stated fails for the Excel processor: its metadata has no \<open>totalItems\<close>,
  while there is one record and no error entry.
\<close>

theorem excelProcess_totalItems_counterexample:
  "map_sum id (\<lambda>r. (getProp (metadata r) ''totalItems'', length (data r), length (errors r)))
     (excelProcess plainPrinter sampleEnv (uploadNamed ''people.xlsx'' ''application/vnd.ms-excel'')
        (Inr (oneRowWorkbook ''name'' (JStr ''Ann''))))
   = Inr (JUndefined, 1, 0)"
  by code_simp

text \<open>Examples of the placement: an item that fails the validation goes to the errors,
  and blank text adds no record.\<close>

lemma imageProcess_blank_text_example:
  "map_option (map_sum id (\<lambda>r. (data r, errors r)))
     (imageProcess sampleEnv (uploadNamed ''bill.png'' ''image/png'')
        (Inr (sampleImage, sampleOcr\<lparr>ocrText := ''  ''\<rparr>)))
   = Some (Inr ([], []))"
  by code_simp

lemma excelProcess_two_rows_example:
  "map_sum id (\<lambda>r. (data r, errors r))
     (excelProcess plainPrinter sampleEnv (uploadNamed ''people.xlsx'' ''application/vnd.ms-excel'')
        (Inr [(''Sheet1'', [[JStr ''name''], [JNull], [JStr ''Ann'']])]))
   = Inr ([JObj [(''name'', JStr ''Ann''), (''_sheet'', JStr ''Sheet1''), (''_row'', JNum 3),
                 (''_id'', JStr ''rec0''), (''_processedAt'', JDate 1700000000000)]],
          [JObj [(''sheet'', JStr ''Sheet1''), (''row'', JNum 2),
                 (''data'', JObj [(''name'', JNull)]),
                 (''errors'', JArr [JStr ''Empty row'']),
                 (''type'', JStr ''validation_error'')]])"
  by code_simp

section \<open>Properties of the PDF processor\<close>

lemma scenario_extracted:
  "extractDataFromPDF scenarioPdf =
     Some [JObj [(''name'', JStr ''John''), (''age'', JStr ''30'')],
           JObj [(''name'', JStr (''John'' @ [newline] @ ''Age''))]]"
  by code_simp

lemma scenario_items:
  "fold (pdfItem e)
     (enumerate 0 [JObj [(''name'', JStr ''John''), (''age'', JStr ''30'')],
                   JObj [(''name'', JStr (''John'' @ [newline] @ ''Age''))]]) ([], [])
   = ([JObj [(''name'', JStr ''John''), (''age'', JStr ''30''),
             (''_id'', JStr (genId e 0)), (''_processedAt'', JDate (now e 0)), (''_index'', JNum 0)],
       JObj [(''name'', JStr (''John'' @ [newline] @ ''Age'')),
             (''_id'', JStr (genId e 1)), (''_processedAt'', JDate (now e 1)), (''_index'', JNum 1)]],
      [])"
  by code_simp

text \<open>
  Claim C6, amended. For the text \<open>"Name: John\nAge: 30"\<close> the PDF processor returns two
  records and no errors: first the record of the key-value extractor, \<open>name\<close> \<open>John\<close>
  and \<open>age\<close> \<open>30\<close>, then the record of the form extractor, which reads the same text
  again; each record carries its \<open>_id\<close>, \<open>_processedAt\<close> and \<open>_index\<close> as well.
\<close>

theorem pdfProcess_scenarioB:
  assumes "hasFileData file"
  shows "pdfProcess e file (Inr scenarioPdf) =
     Some (Inr \<lparr>data =
                  [JObj [(''name'', JStr ''John''), (''age'', JStr ''30''),
                         (''_id'', JStr (genId e 0)), (''_processedAt'', JDate (now e 0)),
                         (''_index'', JNum 0)],
                   JObj [(''name'', JStr (''John'' @ [newline] @ ''Age'')),
                         (''_id'', JStr (genId e 1)), (''_processedAt'', JDate (now e 1)),
                         (''_index'', JNum 1)]],
                errors = [],
                metadata =
                  [(''pages'', JNum 1), (''textLength'', JNum 18), (''totalItems'', JNum 2),
                   (''validItems'', JNum 2), (''errorItems'', JNum 0), (''info'', JObj [])]\<rparr>)"
proof -
  have len: "int (length (pdfText scenarioPdf)) = 18"
    by (simp add: scenarioPdf_def scenarioText_def)
  have np: "numpages scenarioPdf = 1" and inf: "orElse (info scenarioPdf) (JObj []) = JObj []"
    by (simp_all add: scenarioPdf_def orElse_def)
  have "pdfProcess e file (Inr scenarioPdf) =
     Some (Inr \<lparr>data =
                  [JObj [(''name'', JStr ''John''), (''age'', JStr ''30''),
                         (''_id'', JStr (genId e 0)), (''_processedAt'', JDate (now e 0)),
                         (''_index'', JNum 0)],
                   JObj [(''name'', JStr (''John'' @ [newline] @ ''Age'')),
                         (''_id'', JStr (genId e 1)), (''_processedAt'', JDate (now e 1)),
                         (''_index'', JNum 1)]],
                errors = [],
                metadata =
                  [(''pages'', JNum (numpages scenarioPdf)),
                   (''textLength'', JNum (int (length (pdfText scenarioPdf)))),
                   (''totalItems'', JNum (int (length [0::nat, 1] + length ([]::jv list)))),
                   (''validItems'', JNum (int (length [0::nat, 1]))),
                   (''errorItems'', JNum (int (length ([]::jv list)))),
                   (''info'', orElse (info scenarioPdf) (JObj []))]\<rparr>)"
    using assms
    by (simp only: pdfProcess_def not_True_eq_False if_False sum.case scenario_extracted
        option.case Let_def scenario_items fst_conv snd_conv list.size length_Cons)
  then show ?thesis
    by (simp add: len np inf)
qed

theorem pdfProcess_scenarioB_witness:
  "hasFileData (uploadNamed ''card.pdf'' ''application/pdf'')
   \<and> pdfProcess sampleEnv (uploadNamed ''card.pdf'' ''application/pdf'') (Inr scenarioPdf) =
     Some (Inr \<lparr>data =
                  [JObj [(''name'', JStr ''John''), (''age'', JStr ''30''),
                         (''_id'', JStr ''rec0''), (''_processedAt'', JDate 1700000000000),
                         (''_index'', JNum 0)],
                   JObj [(''name'', JStr (''John'' @ [newline] @ ''Age'')),
                         (''_id'', JStr ''rec1''), (''_processedAt'', JDate 1700000000001),
                         (''_index'', JNum 1)]],
                errors = [],
                metadata =
                  [(''pages'', JNum 1), (''textLength'', JNum 18), (''totalItems'', JNum 2),
                   (''validItems'', JNum 2), (''errorItems'', JNum 0), (''info'', JObj [])]\<rparr>)"
proof -
  have h: "hasFileData (uploadNamed ''card.pdf'' ''application/pdf'')"
    by (simp add: hasFileData_def uploadNamed_def)
  have ids: "genId sampleEnv 0 = ''rec0''" "genId sampleEnv 1 = ''rec1''"
    "now sampleEnv 0 = 1700000000000" "now sampleEnv 1 = 1700000000001"
    by (simp_all add: sampleEnv_def showNat.simps digitChar_def)
  from pdfProcess_scenarioB [OF h, of sampleEnv] h show ?thesis
    by (simp only: ids)
qed

text \<open>
  The claim as stated fails: the data holds two records, not one, and the first is the
  key-value record with three more fields.
\<close>

theorem pdfProcess_scenarioB_counterexample:
  "map_option (map_sum id (\<lambda>r. (length (data r), map (\<lambda>d. map fst (ownEntries d)) (data r), errors r)))
     (pdfProcess sampleEnv (uploadNamed ''card.pdf'' ''application/pdf'') (Inr scenarioPdf))
   = Some (Inr (2, [[''name'', ''age'', ''_id'', ''_processedAt'', ''_index''],
                    [''name'', ''_id'', ''_processedAt'', ''_index'']], []))"
  by code_simp

end
